theory Spec2Isabelle
  imports Main "HOL-Library.Word"
begin

section \<open>The keymap utility \<^verbatim>\<open>util.py\<close>: data model\<close>

text \<open>
  Byte strings (\<^verbatim>\<open>bytes\<close>: device paths, file names) are \<open>string\<close>, a list of
  8-bit characters. The lists of integers in \<open>0..255\<close> that travel over the HID
  transport and through the keymap file are lists of 8-bit words. Python's unbounded
  integers are \<open>int\<close>.
\<close>

type_synonym byte = "8 word"

text \<open>
  One entry of \<^verbatim>\<open>hid.enumerate(vendor, product)\<close>: the four keys that
  \<^verbatim>\<open>get_device\<close> reads.
\<close>

record descriptor =
  path :: string
  interface_number :: int
  usage :: int
  usage_page :: int

text \<open>
  Every way the program can stop early. \<open>SystemExit\<close> is what
  \<^verbatim>\<open>parser.error\<close> raises (status 2); \<open>Exception\<close> carries the message of a
  \<^verbatim>\<open>raise Exception(...)\<close>; \<open>UnicodeDecodeError\<close> comes from
  \<^verbatim>\<open>bytes.decode()\<close>; \<open>OSError\<close> stands for a failure reported by the
  transport or the file system.
\<close>

datatype exn =
    SystemExit nat string
  | Exception string
  | UnicodeDecodeError
  | OSError string

section \<open>Constants\<close>

definition vendor :: int where
  "vendor = 0x05ac"

definition product :: int where
  "product = 0x024f"

definition max_request_size :: int where
  "max_request_size = 0x7ff"

definition get_keymap_header :: "byte list" where
  "get_keymap_header = [0x05, 0x84, 0xd8, 0x00, 0x00, 0x00]"

definition set_keymap_header :: "byte list" where
  "set_keymap_header = [0x06, 0x04, 0xd8, 0x00, 0x40, 0x00, 0x00, 0x00]"

section \<open>String formatting\<close>

text \<open>
  The format specifications the program uses: \<^verbatim>\<open>{i:02x}\<close>, \<^verbatim>\<open>{i:04x}\<close>
  (lower-case hexadecimal, zero-padded to a minimal width, the sign counted in the
  width) and the plain \<^verbatim>\<open>{n}\<close> of an integer (decimal).
\<close>

definition hex_digit :: "nat \<Rightarrow> char" where
  "hex_digit n = ''0123456789abcdef'' ! (n mod 16)"

fun hex_nat :: "nat \<Rightarrow> string" where
  "hex_nat n = (if n < 16 then [hex_digit n] else hex_nat (n div 16) @ [hex_digit (n mod 16)])"

declare hex_nat.simps [simp del]

definition dec_digit :: "nat \<Rightarrow> char" where
  "dec_digit n = ''0123456789'' ! (n mod 10)"

fun str_nat :: "nat \<Rightarrow> string" where
  "str_nat n = (if n < 10 then [dec_digit n] else str_nat (n div 10) @ [dec_digit (n mod 10)])"

declare str_nat.simps [simp del]

definition str_int :: "int \<Rightarrow> string" where
  "str_int i = (if i < 0 then CHR ''-'' # str_nat (nat (- i)) else str_nat (nat i))"

definition zfill :: "nat \<Rightarrow> string \<Rightarrow> string" where
  "zfill w s = replicate (w - length s) CHR ''0'' @ s"

definition format_x :: "nat \<Rightarrow> int \<Rightarrow> string" where
  "format_x w i =
     (if i < 0 then CHR ''-'' # zfill (w - 1) (hex_nat (nat (- i)))
      else zfill w (hex_nat (nat i)))"

text \<open>\<^verbatim>\<open>sep.join(parts)\<close>\<close>

fun join :: "string \<Rightarrow> string list \<Rightarrow> string" where
  "join sep [] = []"
| "join sep [x] = x"
| "join sep (x # y # ys) = x @ sep @ join sep (y # ys)"

text \<open>
  \<^verbatim>\<open>format_to_hex_template\<close>: the list is cut into slices
  \<^verbatim>\<open>int_list[i:i + chunk_size]\<close> for \<^verbatim>\<open>i in range(0, len(int_list), chunk_size)\<close>,
  and each slice becomes one line, the offset \<^verbatim>\<open>idx * chunk_size\<close> first.
\<close>

definition chunk_size :: nat where
  "chunk_size = 4"

definition chunks :: "byte list \<Rightarrow> byte list list" where
  "chunks int_list =
     map (\<lambda>i. take chunk_size (drop i int_list))
       (map (\<lambda>k. k * chunk_size) [0..<(length int_list + chunk_size - 1) div chunk_size])"

definition hex_values :: "byte list \<Rightarrow> string" where
  "hex_values chunk = join '' '' (map (\<lambda>i. format_x 2 (uint i)) chunk)"

definition format_to_hex_template :: "byte list \<Rightarrow> string" where
  "format_to_hex_template int_list =
     concat (map (\<lambda>(idx, chunk).
                format_x 4 (int (idx * chunk_size)) @ ''  '' @ hex_values chunk @ [CHR 0x0A])
             (List.enumerate 0 (chunks int_list)))"

definition list_to_hex :: "byte list \<Rightarrow> string" where
  "list_to_hex int_list = join '' '' (map (\<lambda>i. format_x 2 (uint i)) int_list)"

section \<open>Device resolution: \<^verbatim>\<open>get_device\<close>\<close>

text \<open>\<^verbatim>\<open>sub in s\<close> on byte strings: \<open>sub\<close> occurs in \<open>s\<close> as a contiguous slice.\<close>

fun starts_with :: "string \<Rightarrow> string \<Rightarrow> bool" where
  "starts_with [] s = True"
| "starts_with (c # cs) [] = False"
| "starts_with (c # cs) (x # xs) = (c = x \<and> starts_with cs xs)"

fun contains :: "string \<Rightarrow> string \<Rightarrow> bool" where
  "contains sub [] = (sub = [])"
| "contains sub (x # xs) = (starts_with sub (x # xs) \<or> contains sub xs)"

text \<open>
  \<^verbatim>\<open>bytes.decode()\<close> decodes strict UTF-8 and raises on anything else. A decoded
  string is kept as its UTF-8 bytes, which name it uniquely.
\<close>

definition in_range :: "nat \<Rightarrow> nat \<Rightarrow> char \<Rightarrow> bool" where
  "in_range lo hi c = (lo \<le> of_char c \<and> (of_char c :: nat) \<le> hi)"

fun utf8_valid :: "string \<Rightarrow> bool" where
  "utf8_valid [] = True"
| "utf8_valid (a # rest) =
     (if in_range 0x00 0x7F a then utf8_valid rest
      else if in_range 0xC2 0xDF a then
        (case rest of b # r \<Rightarrow> in_range 0x80 0xBF b \<and> utf8_valid r | _ \<Rightarrow> False)
      else if in_range 0xE0 0xEF a then
        (case rest of
           b # c # r \<Rightarrow>
             in_range (if of_char a = (0xE0 :: nat) then 0xA0 else 0x80)
                      (if of_char a = (0xED :: nat) then 0x9F else 0xBF) b
             \<and> in_range 0x80 0xBF c \<and> utf8_valid r
         | _ \<Rightarrow> False)
      else if in_range 0xF0 0xF4 a then
        (case rest of
           b # c # d # r \<Rightarrow>
             in_range (if of_char a = (0xF0 :: nat) then 0x90 else 0x80)
                      (if of_char a = (0xF4 :: nat) then 0x8F else 0xBF) b
             \<and> in_range 0x80 0xBF c \<and> in_range 0x80 0xBF d \<and> utf8_valid r
         | _ \<Rightarrow> False)
      else False)"

definition decode :: "string \<Rightarrow> exn + string" where
  "decode b = (if utf8_valid b then Inr b else Inl UnicodeDecodeError)"

text \<open>The condition of line 38 on one descriptor.\<close>

definition vendor_usage :: "descriptor \<Rightarrow> bool" where
  "vendor_usage device =
     (interface_number device \<noteq> - 1 \<and> usage device = 1 \<and> usage_page device = 0xff00)"

text \<open>
  The two \<^verbatim>\<open>raise Exception(f"Multiple ... devices found: {a.decode()} and {b.decode()}")\<close>:
  the message is built first, left to right, so a path that does not decode raises
  \<open>UnicodeDecodeError\<close> instead.
\<close>

definition multiple_found :: "string \<Rightarrow> string \<Rightarrow> string \<Rightarrow> exn" where
  "multiple_found kind first second =
     (case decode first of
        Inl e \<Rightarrow> e
      | Inr a \<Rightarrow>
          (case decode second of
             Inl e \<Rightarrow> e
           | Inr b \<Rightarrow> Exception (''Multiple '' @ kind @ '' devices found: '' @ a @ '' and '' @ b)))"

text \<open>
  The \<^verbatim>\<open>for device in devices\<close> loop, the pair \<open>(request_path, data_path)\<close> being its
  state.
\<close>

fun get_device_loop :: "descriptor list \<Rightarrow> string \<times> string \<Rightarrow> exn + (string \<times> string)" where
  "get_device_loop [] (request_path, data_path) = Inr (request_path, data_path)"
| "get_device_loop (device # devices) (request_path, data_path) =
     (if vendor_usage device then
        if contains ''&Col05'' (path device) then
          if request_path \<noteq> [] then Inl (multiple_found ''request'' request_path (path device))
          else get_device_loop devices (path device, data_path)
        else if contains ''&Col06'' (path device) then
          if data_path \<noteq> [] then Inl (multiple_found ''data'' data_path (path device))
          else get_device_loop devices (request_path, path device)
        else get_device_loop devices (request_path, data_path)
      else get_device_loop devices (request_path, data_path))"

text \<open>
  \<^verbatim>\<open>get_device\<close> after the call of \<^verbatim>\<open>hid.enumerate\<close>, whose result is \<open>devices\<close>.
\<close>

definition get_device_of :: "int \<Rightarrow> int \<Rightarrow> descriptor list \<Rightarrow> exn + (string \<times> string)" where
  "get_device_of vendor' product' devices =
     (if devices = [] then
        Inl (Exception (''No devices matching VID: '' @ format_x 4 vendor' @ '' PID: ''
                        @ format_x 4 product' @ '' found''))
      else
        (case get_device_loop devices ([], []) of
           Inl e \<Rightarrow> Inl e
         | Inr (request_path, data_path) \<Rightarrow>
             if request_path = [] then Inl (Exception ''No request device found'')
             else if data_path = [] then Inl (Exception ''No data device found'')
             else Inr (request_path, data_path)))"

section \<open>The program and its environment\<close>

text \<open>
  The two \<^verbatim>\<open>hid.device()\<close> objects of \<^verbatim>\<open>main\<close>: \<open>r\<close> is opened on the request
  path, \<open>d\<close> on the data path.
\<close>

datatype handle = Handle_r | Handle_d

text \<open>
  Everything the program does to the outside, in the order it does it: the calls of the
  \<^verbatim>\<open>hid\<close> module, the reading and writing of the keymap file, and the lines printed.
  A call that raises is recorded as well: it was made.
\<close>

datatype event =
    Enumerate int int
  | Open_path handle string
  | Send_feature_report handle "byte list"
  | Get_feature_report handle int int
  | Close handle
  | Read_file string
  | Write_file string "byte list"
  | Print string

text \<open>
  What the outside answers: the enumeration, and for each call that can fail either the
  exception it raises or its result.
\<close>

record world =
  hid_enumerate :: "int \<Rightarrow> int \<Rightarrow> descriptor list"
  hid_open_path :: "handle \<Rightarrow> string \<Rightarrow> exn + unit"
  hid_send_feature_report :: "handle \<Rightarrow> byte list \<Rightarrow> exn + int"
  hid_get_feature_report :: "handle \<Rightarrow> int \<Rightarrow> int \<Rightarrow> exn + byte list"
  file_read :: "string \<Rightarrow> exn + byte list"
  file_write :: "string \<Rightarrow> byte list \<Rightarrow> exn + unit"

text \<open>
  A run is the list of events so far and either the exception that ended it or a value.
\<close>

type_synonym 'a io = "event list \<times> (exn + 'a)"

definition return_io :: "'a \<Rightarrow> 'a io" where
  "return_io x = ([], Inr x)"

definition raise_io :: "exn \<Rightarrow> 'a io" where
  "raise_io e = ([], Inl e)"

definition call :: "event \<Rightarrow> exn + 'a \<Rightarrow> 'a io" where
  "call ev answer = ([ev], answer)"

definition bind_io :: "'a io \<Rightarrow> ('a \<Rightarrow> 'b io) \<Rightarrow> 'b io" where
  "bind_io m f =
     (case m of
        (t, Inl e) \<Rightarrow> (t, Inl e)
      | (t, Inr x) \<Rightarrow> (case f x of (t', res) \<Rightarrow> (t @ t', res)))"

definition print :: "string \<Rightarrow> unit io" where
  "print line = call (Print line) (Inr ())"

text \<open>
  The parsed command line: \<^verbatim>\<open>args.read\<close> and \<^verbatim>\<open>args.write\<close> are \<open>None\<close> or a
  string, \<^verbatim>\<open>args.force\<close> a flag. Python's truth test of such a value holds for a
  string that is not empty.
\<close>

record args =
  args_read :: "string option"
  args_write :: "string option"
  args_force :: bool

fun truthy :: "string option \<Rightarrow> bool" where
  "truthy None = False"
| "truthy (Some s) = (s \<noteq> [])"

text \<open>\<^verbatim>\<open>parser.error(message)\<close> prints the usage and exits with status 2.\<close>

definition parser_error :: "string \<Rightarrow> 'a io" where
  "parser_error message = raise_io (SystemExit 2 message)"

definition get_device :: "world \<Rightarrow> int \<Rightarrow> int \<Rightarrow> (string \<times> string) io" where
  "get_device w vendor' product' =
     bind_io (call (Enumerate vendor' product') (Inr (hid_enumerate w vendor' product')))
       (\<lambda>devices. ([], get_device_of vendor' product' devices))"

text \<open>
  The two buffers that \<^verbatim>\<open>main\<close> computes, each named after its variable:
  \<^verbatim>\<open>receive_result_pruned = receive_result[8:]\<close> (line 82) and
  \<^verbatim>\<open>write_keymap_buffer = set_keymap_header + list(input_file_bytes)\<close> (line 95).
\<close>

definition receive_result_pruned :: "byte list \<Rightarrow> byte list" where
  "receive_result_pruned receive_result = drop 8 receive_result"

definition write_keymap_buffer :: "byte list \<Rightarrow> byte list" where
  "write_keymap_buffer input_file_bytes = set_keymap_header @ input_file_bytes"

text \<open>The block under \<^verbatim>\<open>if args.read:\<close>.\<close>

definition main_read :: "world \<Rightarrow> args \<Rightarrow> unit io" where
  "main_read w a =
     (case args_read a of
        None \<Rightarrow> return_io ()
      | Some output_file \<Rightarrow>
          if output_file = [] then return_io ()
          else if args_force a then
            bind_io (print (''Reading keymap from keyboard and saving to '' @ output_file @ ''.''))
              (\<lambda>_.
            bind_io (call (Send_feature_report Handle_r get_keymap_header)
                       (hid_send_feature_report w Handle_r get_keymap_header))
              (\<lambda>send_result.
            bind_io (print (''Sent '' @ str_int send_result @ '' bytes to keyboard.''))
              (\<lambda>_.
            bind_io (call (Get_feature_report Handle_d 0x06 max_request_size)
                       (hid_get_feature_report w Handle_d 0x06 max_request_size))
              (\<lambda>receive_result.
            bind_io (print (''Received '' @ str_nat (length receive_result)
                            @ '' bytes from keyboard.''))
              (\<lambda>_.
            call (Write_file output_file (receive_result_pruned receive_result))
              (file_write w output_file (receive_result_pruned receive_result)))))))
          else
            bind_io (print (''Command to read keymap and save to '' @ output_file
                            @ '' (no action taken, use -f to execute).''))
              (\<lambda>_.
            bind_io (print (list_to_hex get_keymap_header))
              (\<lambda>_.
            print (''Length: '' @ str_nat (length get_keymap_header) @ '' bytes''))))"

text \<open>The block under \<^verbatim>\<open>if args.write:\<close>.\<close>

definition main_write :: "world \<Rightarrow> args \<Rightarrow> unit io" where
  "main_write w a =
     (case args_write a of
        None \<Rightarrow> return_io ()
      | Some input_file \<Rightarrow>
          if input_file = [] then return_io ()
          else
            bind_io (call (Read_file input_file) (file_read w input_file))
              (\<lambda>input_file_bytes.
            if args_force a then
              bind_io (print (''Writing keymap from '' @ input_file @ '' to keyboard.''))
                (\<lambda>_.
              bind_io (call (Send_feature_report Handle_d (write_keymap_buffer input_file_bytes))
                         (hid_send_feature_report w Handle_d (write_keymap_buffer input_file_bytes)))
                (\<lambda>send_result.
              print (''Sent '' @ str_int send_result @ '' bytes to keyboard.'')))
            else
              bind_io (print (''Command to write keymap from '' @ input_file
                              @ '' to keyboard (no action taken, use -f to execute).''))
                (\<lambda>_.
              bind_io (print (list_to_hex (write_keymap_buffer input_file_bytes)))
                (\<lambda>_.
              print (''Length: '' @ str_nat (length (write_keymap_buffer input_file_bytes))
                     @ '' bytes'')))))"

definition main :: "world \<Rightarrow> args \<Rightarrow> unit io" where
  "main w a =
     (if truthy (args_read a) \<and> truthy (args_write a) then
        parser_error ''You can't specify both read and write operations at the same time.''
      else if \<not> truthy (args_read a) \<and> \<not> truthy (args_write a) then
        parser_error ''You must specify either a read or write operation.''
      else
        bind_io (get_device w vendor product)
          (\<lambda>(request_path, data_path).
        bind_io (call (Open_path Handle_r request_path) (hid_open_path w Handle_r request_path))
          (\<lambda>_.
        bind_io (call (Open_path Handle_d data_path) (hid_open_path w Handle_d data_path))
          (\<lambda>_.
        bind_io (main_read w a)
          (\<lambda>_.
        bind_io (main_write w a)
          (\<lambda>_.
        bind_io (call (Close Handle_r) (Inr ()))
          (\<lambda>_.
        call (Close Handle_d) (Inr ()))))))))"


section \<open>Notions used in the statements\<close>

text \<open>
  The paths the loop puts into the request slot and into the data slot, in enumeration
  order: those of the descriptors that pass the test of line 38 and reach the first,
  respectively the second, branch of the \<^verbatim>\<open>if\<close>/\<^verbatim>\<open>elif\<close>.
\<close>

definition request_candidates :: "descriptor list \<Rightarrow> string list" where
  "request_candidates devices =
     map path (filter (\<lambda>d. vendor_usage d \<and> contains ''&Col05'' (path d)) devices)"

definition data_candidates :: "descriptor list \<Rightarrow> string list" where
  "data_candidates devices =
     map path (filter (\<lambda>d. vendor_usage d \<and> \<not> contains ''&Col05'' (path d)
                            \<and> contains ''&Col06'' (path d)) devices)"

text \<open>A slot of the loop's state as a list: empty while the slot holds \<^verbatim>\<open>b''\<close>.\<close>

definition held :: "string \<Rightarrow> string list" where
  "held p = (if p = [] then [] else [p])"

text \<open>The two feature-report calls of the transport.\<close>

fun is_feature_report :: "event \<Rightarrow> bool" where
  "is_feature_report (Send_feature_report _ _) = True"
| "is_feature_report (Get_feature_report _ _ _) = True"
| "is_feature_report _ = False"

fun is_device_call :: "event \<Rightarrow> bool" where
  "is_device_call (Print _) = False"
| "is_device_call (Read_file _) = False"
| "is_device_call (Write_file _ _) = False"
| "is_device_call _ = True"

text \<open>The first line of a text: what stands before the first newline.\<close>

definition first_line :: "string \<Rightarrow> string" where
  "first_line s = takeWhile (\<lambda>c. c \<noteq> CHR 0x0A) s"

section \<open>Concrete inputs\<close>

text \<open>
  Descriptors as a host lists them for one keyboard: the entry of the composite device
  (interface number \<open>-1\<close>), the two vendor collections of the protocol, a collection of
  another usage page, and a vendor collection whose path carries both markers.
\<close>

definition composite_dev :: descriptor where
  "composite_dev =
     \<lparr>path = ''hid#vid_05ac&pid_024f&Col05'', interface_number = - 1, usage = 1,
      usage_page = 0xff00\<rparr>"

definition request_dev :: descriptor where
  "request_dev =
     \<lparr>path = ''hid#vid_05ac&pid_024f&mi_01&Col05'', interface_number = 1, usage = 1,
      usage_page = 0xff00\<rparr>"

definition data_dev :: descriptor where
  "data_dev =
     \<lparr>path = ''hid#vid_05ac&pid_024f&mi_01&Col06'', interface_number = 1, usage = 1,
      usage_page = 0xff00\<rparr>"

definition second_request_dev :: descriptor where
  "second_request_dev =
     \<lparr>path = ''hid#vid_05ac&pid_024f&mi_02&Col05'', interface_number = 2, usage = 1,
      usage_page = 0xff00\<rparr>"

definition second_data_dev :: descriptor where
  "second_data_dev =
     \<lparr>path = ''hid#vid_05ac&pid_024f&mi_02&Col06'', interface_number = 2, usage = 1,
      usage_page = 0xff00\<rparr>"

definition consumer_dev :: descriptor where
  "consumer_dev =
     \<lparr>path = ''hid#vid_05ac&pid_024f&mi_01&Col06'', interface_number = 1, usage = 1,
      usage_page = 0x000c\<rparr>"

definition both_markers_dev :: descriptor where
  "both_markers_dev =
     \<lparr>path = ''hid#vid_05ac&pid_024f&Col05&Col06'', interface_number = 1, usage = 1,
      usage_page = 0xff00\<rparr>"

text \<open>
  A host on which every call succeeds: it enumerates \<open>devices\<close>, answers a
  \<^verbatim>\<open>get_feature_report\<close> with \<open>response\<close>, and holds \<open>file_bytes\<close> in every file.
\<close>

definition keyboard :: "descriptor list \<Rightarrow> byte list \<Rightarrow> byte list \<Rightarrow> world" where
  "keyboard devices response file_bytes =
     \<lparr>hid_enumerate = (\<lambda>v p. devices),
      hid_open_path = (\<lambda>h p. Inr ()),
      hid_send_feature_report = (\<lambda>h report. Inr (int (length report))),
      hid_get_feature_report = (\<lambda>h report_id n. Inr response),
      file_read = (\<lambda>name. Inr file_bytes),
      file_write = (\<lambda>name content. Inr ())\<rparr>"

text \<open>The same host with a transport whose \<^verbatim>\<open>get_feature_report\<close> raises.\<close>

definition unplugged :: "descriptor list \<Rightarrow> world" where
  "unplugged devices =
     (keyboard devices [] [])\<lparr>hid_get_feature_report := (\<lambda>h report_id n. Inl (OSError ''read error''))\<rparr>"

text \<open>The same host without the input file.\<close>

definition no_file :: "descriptor list \<Rightarrow> world" where
  "no_file devices =
     (keyboard devices [] [])\<lparr>file_read := (\<lambda>name. Inl (OSError ''No such file or directory''))\<rparr>"

definition read_args :: "bool \<Rightarrow> args" where
  "read_args f = \<lparr>args_read = Some ''keymap.bin'', args_write = None, args_force = f\<rparr>"

definition write_args :: "bool \<Rightarrow> args" where
  "write_args f = \<lparr>args_read = None, args_write = Some ''keymap.bin'', args_force = f\<rparr>"

section \<open>Auxiliary facts\<close>

lemmas io_defs = bind_io_def call_def print_def return_io_def raise_io_def parser_error_def

lemmas dev_defs = composite_dev_def request_dev_def data_dev_def second_request_dev_def
  second_data_dev_def consumer_dev_def both_markers_dev_def

lemmas candidates_defs = request_candidates_def data_candidates_def held_def

lemma starts_with_iff: "starts_with sub s \<longleftrightarrow> (\<exists>suf. s = sub @ suf)"
  by (induction sub s rule: starts_with.induct) auto

lemma contains_iff: "contains sub s \<longleftrightarrow> (\<exists>pre suf. s = pre @ sub @ suf)"
proof (induction s)
  case Nil
  then show ?case by auto
next
  case (Cons x xs)
  show ?case
  proof
    assume "contains sub (x # xs)"
    then consider "starts_with sub (x # xs)" | "contains sub xs" by auto
    then show "\<exists>pre suf. x # xs = pre @ sub @ suf"
    proof cases
      case 1
      then obtain suf where "x # xs = sub @ suf" by (auto simp: starts_with_iff)
      then have "x # xs = [] @ sub @ suf" by simp
      then show ?thesis by blast
    next
      case 2
      then obtain pre suf where "xs = pre @ sub @ suf" using Cons.IH by blast
      then have "x # xs = (x # pre) @ sub @ suf" by simp
      then show ?thesis by blast
    qed
  next
    assume "\<exists>pre suf. x # xs = pre @ sub @ suf"
    then obtain pre suf where e: "x # xs = pre @ sub @ suf" by blast
    show "contains sub (x # xs)"
    proof (cases pre)
      case Nil
      with e have "starts_with sub (x # xs)" by (auto simp: starts_with_iff)
      then show ?thesis by simp
    next
      case (Cons p ps)
      with e have "xs = ps @ sub @ suf" by simp
      then have "contains sub xs" using Cons.IH by blast
      then show ?thesis by simp
    qed
  qed
qed

lemma contains_nonempty: "contains (c # cs) s \<Longrightarrow> s \<noteq> []"
  by (cases s) auto

lemma request_candidates_nonempty: "p \<in> set (request_candidates ds) \<Longrightarrow> p \<noteq> []"
  using contains_nonempty by (auto simp: request_candidates_def)

lemma data_candidates_nonempty: "p \<in> set (data_candidates ds) \<Longrightarrow> p \<noteq> []"
  using contains_nonempty by (auto simp: data_candidates_def)

text \<open>A scan in which neither slot is claimed twice fills each slot with its candidate.\<close>

lemma loop_success:
  "length (held rp @ request_candidates ds) \<le> 1 \<Longrightarrow> length (held dp @ data_candidates ds) \<le> 1 \<Longrightarrow>
   get_device_loop ds (rp, dp) =
     Inr (concat (held rp @ request_candidates ds), concat (held dp @ data_candidates ds))"
proof (induction ds arbitrary: rp dp)
  case Nil
  then show ?case by (simp add: candidates_defs)
next
  case (Cons d ds)
  show ?case
  proof (cases "vendor_usage d \<and> contains ''&Col05'' (path d)")
    case True
    with Cons.prems have rp: "rp = []" by (auto simp: candidates_defs split: if_splits)
    from True have ne: "path d \<noteq> []" using contains_nonempty by auto
    have "get_device_loop (d # ds) (rp, dp) = get_device_loop ds (path d, dp)"
      using True rp by simp
    also have "\<dots> = Inr (concat (held (path d) @ request_candidates ds), concat (held dp @ data_candidates ds))"
      using Cons.prems True ne by (intro Cons.IH) (auto simp: candidates_defs)
    finally show ?thesis using True ne rp by (simp add: candidates_defs)
  next
    case False
    note nreq = False
    show ?thesis
    proof (cases "vendor_usage d \<and> contains ''&Col06'' (path d)")
      case True
      with nreq have n5: "\<not> contains ''&Col05'' (path d)" by auto
      with True Cons.prems have dp: "dp = []" by (auto simp: candidates_defs split: if_splits)
      from True have ne: "path d \<noteq> []" using contains_nonempty by auto
      have "get_device_loop (d # ds) (rp, dp) = get_device_loop ds (rp, path d)"
        using True n5 dp by simp
      also have "\<dots> = Inr (concat (held rp @ request_candidates ds), concat (held (path d) @ data_candidates ds))"
        using Cons.prems True n5 ne by (intro Cons.IH) (auto simp: candidates_defs)
      finally show ?thesis using True n5 ne dp by (simp add: candidates_defs)
    next
      case False
      with nreq have "get_device_loop (d # ds) (rp, dp) = get_device_loop ds (rp, dp)" by auto
      also have "\<dots> = Inr (concat (held rp @ request_candidates ds), concat (held dp @ data_candidates ds))"
        using Cons.prems False nreq by (intro Cons.IH) (auto simp: candidates_defs)
      finally show ?thesis using False nreq by (auto simp: candidates_defs)
    qed
  qed
qed

text \<open>
  A scan in which a slot is claimed twice stops at the first second claim, with the
  exception built from the first two claimants of that slot.
\<close>

lemma loop_failure:
  "2 \<le> length (held rp @ request_candidates ds) \<or> 2 \<le> length (held dp @ data_candidates ds) \<Longrightarrow>
   (2 \<le> length (held rp @ request_candidates ds) \<and>
    get_device_loop ds (rp, dp) =
      Inl (multiple_found ''request'' ((held rp @ request_candidates ds) ! 0) ((held rp @ request_candidates ds) ! 1)))
   \<or> (2 \<le> length (held dp @ data_candidates ds) \<and>
    get_device_loop ds (rp, dp) =
      Inl (multiple_found ''data'' ((held dp @ data_candidates ds) ! 0) ((held dp @ data_candidates ds) ! 1)))"
proof (induction ds arbitrary: rp dp)
  case Nil
  then show ?case by (simp add: candidates_defs split: if_splits)
next
  case (Cons d ds)
  show ?case
  proof (cases "vendor_usage d \<and> contains ''&Col05'' (path d)")
    case True
    note req = True
    from True have ne: "path d \<noteq> []" using contains_nonempty by auto
    show ?thesis
    proof (cases "rp = []")
      case True
      have eq: "held rp @ request_candidates (d # ds) = held (path d) @ request_candidates ds"
           "held dp @ data_candidates (d # ds) = held dp @ data_candidates ds"
        using req ne True by (auto simp: candidates_defs)
      have step: "get_device_loop (d # ds) (rp, dp) = get_device_loop ds (path d, dp)"
        using req True by simp
      show ?thesis using Cons.IH[of "path d" dp] Cons.prems unfolding eq step by blast
    next
      case False
      then show ?thesis using req by (simp add: candidates_defs)
    qed
  next
    case False
    note nreq = False
    show ?thesis
    proof (cases "vendor_usage d \<and> contains ''&Col06'' (path d)")
      case True
      note dat = True
      with nreq have n5: "\<not> contains ''&Col05'' (path d)" by auto
      from True have ne: "path d \<noteq> []" using contains_nonempty by auto
      show ?thesis
      proof (cases "dp = []")
        case True
        have eq: "held rp @ request_candidates (d # ds) = held rp @ request_candidates ds"
           "held dp @ data_candidates (d # ds) = held (path d) @ data_candidates ds"
          using dat n5 ne True by (auto simp: candidates_defs)
        have step: "get_device_loop (d # ds) (rp, dp) = get_device_loop ds (rp, path d)"
          using dat n5 True by simp
        show ?thesis using Cons.IH[of rp "path d"] Cons.prems unfolding eq step by blast
      next
        case False
        then show ?thesis using dat n5 by (simp add: candidates_defs)
      qed
    next
      case False
      have eq: "held rp @ request_candidates (d # ds) = held rp @ request_candidates ds"
           "held dp @ data_candidates (d # ds) = held dp @ data_candidates ds"
        using False nreq by (auto simp: candidates_defs)
      have step: "get_device_loop (d # ds) (rp, dp) = get_device_loop ds (rp, dp)"
        using False nreq by auto
      show ?thesis using Cons.IH[of rp dp] Cons.prems unfolding eq step by blast
    qed
  qed
qed

lemma held_Nil: "held [] = []"
  by (simp add: held_def)

lemma singleton_length: "length xs = Suc 0 \<longleftrightarrow> (\<exists>x. xs = [x])"
  by (cases xs) auto

lemma get_device_of_Inr_iff:
  "get_device_of v p devices = Inr (rp, dp) \<longleftrightarrow>
     request_candidates devices = [rp] \<and> data_candidates devices = [dp]"
proof
  assume ok: "get_device_of v p devices = Inr (rp, dp)"
  then have ne: "devices \<noteq> []" by (auto simp: get_device_of_def)
  have small: "length (request_candidates devices) \<le> 1 \<and> length (data_candidates devices) \<le> 1"
  proof (rule ccontr)
    assume "\<not> ?thesis"
    then have "2 \<le> length (held [] @ request_candidates devices) \<or> 2 \<le> length (held [] @ data_candidates devices)"
      by (auto simp: held_Nil)
    from loop_failure[OF this] obtain e where "get_device_loop devices ([], []) = Inl e" by blast
    with ok ne show False by (simp add: get_device_of_def)
  qed
  then have "get_device_loop devices ([], []) = Inr (concat (request_candidates devices), concat (data_candidates devices))"
    using loop_success[of "[]" devices "[]"] by (simp add: held_Nil)
  with ok ne have c: "concat (request_candidates devices) = rp" "concat (data_candidates devices) = dp"
    "rp \<noteq> []" "dp \<noteq> []"
    by (auto simp: get_device_of_def split: if_splits)
  from small c show "request_candidates devices = [rp] \<and> data_candidates devices = [dp]"
    by (cases "request_candidates devices"; cases "data_candidates devices") auto
next
  assume h: "request_candidates devices = [rp] \<and> data_candidates devices = [dp]"
  then have ne: "devices \<noteq> []" by (auto simp: request_candidates_def)
  from h have nz: "rp \<noteq> []" "dp \<noteq> []"
    using request_candidates_nonempty[of rp devices] data_candidates_nonempty[of dp devices] by auto
  from h have "get_device_loop devices ([], []) = Inr (rp, dp)"
    using loop_success[of "[]" devices "[]"] by (simp add: held_Nil)
  with ne nz show "get_device_of v p devices = Inr (rp, dp)"
    by (simp add: get_device_of_def)
qed

lemma loop_skip:
  "\<not> vendor_usage d \<Longrightarrow> get_device_loop (xs @ d # ys) st = get_device_loop (xs @ ys) st"
proof (induction xs arbitrary: st)
  case Nil
  then show ?case by (cases st) simp
next
  case (Cons x xs)
  then show ?case by (cases st) simp
qed

lemma main_shape:
  assumes "truthy (args_read a) \<noteq> truthy (args_write a)"
  shows "main w a =
    (case get_device_of vendor product (hid_enumerate w vendor product) of
       Inl e \<Rightarrow> ([Enumerate vendor product], Inl e)
     | Inr (rp, dp) \<Rightarrow>
        (case hid_open_path w Handle_r rp of
           Inl e \<Rightarrow> ([Enumerate vendor product, Open_path Handle_r rp], Inl e)
         | Inr _ \<Rightarrow>
            (case hid_open_path w Handle_d dp of
               Inl e \<Rightarrow> ([Enumerate vendor product, Open_path Handle_r rp, Open_path Handle_d dp], Inl e)
             | Inr _ \<Rightarrow>
                (case bind_io (main_read w a) (\<lambda>_. main_write w a) of
                   (t, Inl e) \<Rightarrow> ([Enumerate vendor product, Open_path Handle_r rp, Open_path Handle_d dp] @ t, Inl e)
                 | (t, Inr _) \<Rightarrow> ([Enumerate vendor product, Open_path Handle_r rp, Open_path Handle_d dp] @ t
                                       @ [Close Handle_r, Close Handle_d], Inr ())))))"
  using assms by (auto simp: main_def get_device_def io_defs split: sum.splits prod.splits)

lemma main_usage:
  assumes "truthy (args_read a) = truthy (args_write a)"
  shows "main w a = ([], Inl (SystemExit 2
     (if truthy (args_read a) then ''You can't specify both read and write operations at the same time.''
      else ''You must specify either a read or write operation.'')))"
  using assms by (auto simp: main_def io_defs)

lemma main_read_dry:
  "\<not> args_force a \<Longrightarrow> main_read w a =
     (case args_read a of
        None \<Rightarrow> ([], Inr ())
      | Some output_file \<Rightarrow>
          if output_file = [] then ([], Inr ())
          else ([Print (''Command to read keymap and save to '' @ output_file
                         @ '' (no action taken, use -f to execute).''),
                 Print (list_to_hex get_keymap_header),
                 Print (''Length: '' @ str_nat (length get_keymap_header) @ '' bytes'')], Inr ()))"
  by (simp add: main_read_def io_defs split: option.splits)

lemma main_write_dry:
  "\<not> args_force a \<Longrightarrow> main_write w a =
     (case args_write a of
        None \<Rightarrow> ([], Inr ())
      | Some input_file \<Rightarrow>
          if input_file = [] then ([], Inr ())
          else (case file_read w input_file of
                  Inl e \<Rightarrow> ([Read_file input_file], Inl e)
                | Inr input_file_bytes \<Rightarrow>
                   ([Read_file input_file,
                     Print (''Command to write keymap from '' @ input_file
                              @ '' to keyboard (no action taken, use -f to execute).''),
                     Print (list_to_hex (write_keymap_buffer input_file_bytes)),
                     Print (''Length: '' @ str_nat (length (write_keymap_buffer input_file_bytes))
                            @ '' bytes'')], Inr ())))"
  by (simp add: main_write_def io_defs split: option.splits sum.splits)

lemma fst_bind_io_subset:
  assumes "ev \<in> set (fst (bind_io m f))"
  shows "ev \<in> set (fst m) \<or> (\<exists>x. ev \<in> set (fst (f x)))"
proof (cases m)
  case (Pair t r)
  show ?thesis
  proof (cases r)
    case (Inl e)
    with Pair assms show ?thesis by (simp add: bind_io_def)
  next
    case (Inr x)
    obtain t' r' where fx: "f x = (t', r')" by (cases "f x")
    with Pair Inr have "fst (bind_io m f) = t @ t'" by (simp add: bind_io_def)
    with assms have "ev \<in> set t \<or> ev \<in> set t'" by simp
    then show ?thesis
    proof
      assume "ev \<in> set t"
      with Pair show ?thesis by simp
    next
      assume "ev \<in> set t'"
      with fx have "ev \<in> set (fst (f x))" by simp
      then show ?thesis by blast
    qed
  qed
qed

lemma events_bind:
  assumes "\<forall>ev\<in>set (fst m). P ev" and "\<And>x. \<forall>ev\<in>set (fst (f x)). P ev"
  shows "\<forall>ev\<in>set (fst (bind_io m f)). P ev"
  using assms fst_bind_io_subset[of _ m f] by blast

lemma events_call: "P e \<Longrightarrow> \<forall>ev\<in>set (fst (call e r)). P ev"
  by (simp add: call_def)

lemma events_print: "P (Print s) \<Longrightarrow> \<forall>ev\<in>set (fst (print s)). P ev"
  by (simp add: call_def print_def)

lemma main_read_events:
  "\<forall>ev\<in>set (fst (main_read w a)). (is_feature_report ev \<and> args_force a) \<or> \<not> is_device_call ev"
proof (cases "args_read a")
  case None
  then show ?thesis by (simp add: main_read_def return_io_def)
next
  case (Some output_file)
  show ?thesis
  proof (cases "output_file = []")
    case True
    with Some show ?thesis by (simp add: main_read_def return_io_def)
  next
    case False
    show ?thesis
    proof (cases "args_force a")
      case True
      have "main_read w a = 
            bind_io (print (''Reading keymap from keyboard and saving to '' @ output_file @ ''.''))
              (\<lambda>_.
            bind_io (call (Send_feature_report Handle_r get_keymap_header)
                       (hid_send_feature_report w Handle_r get_keymap_header))
              (\<lambda>send_result.
            bind_io (print (''Sent '' @ str_int send_result @ '' bytes to keyboard.''))
              (\<lambda>_.
            bind_io (call (Get_feature_report Handle_d 0x06 max_request_size)
                       (hid_get_feature_report w Handle_d 0x06 max_request_size))
              (\<lambda>receive_result.
            bind_io (print (''Received '' @ str_nat (length receive_result)
                            @ '' bytes from keyboard.''))
              (\<lambda>_.
            call (Write_file output_file (receive_result_pruned receive_result))
              (file_write w output_file (receive_result_pruned receive_result)))))))"
        using Some False True by (simp add: main_read_def)
      then show ?thesis using True
        by (simp only:) (intro events_bind events_call events_print; simp)
    next
      case dry: False
      have "main_read w a =
            bind_io (print (''Command to read keymap and save to '' @ output_file
                            @ '' (no action taken, use -f to execute).''))
              (\<lambda>_.
            bind_io (print (list_to_hex get_keymap_header))
              (\<lambda>_.
            print (''Length: '' @ str_nat (length get_keymap_header) @ '' bytes'')))"
        using Some False dry by (simp add: main_read_def)
      then show ?thesis
        by (simp only:) (intro events_bind events_call events_print; simp)
    qed
  qed
qed

lemma main_write_events:
  "\<forall>ev\<in>set (fst (main_write w a)). (is_feature_report ev \<and> args_force a) \<or> \<not> is_device_call ev"
proof (cases "args_write a")
  case None
  then show ?thesis by (simp add: main_write_def return_io_def)
next
  case (Some input_file)
  show ?thesis
  proof (cases "input_file = []")
    case True
    with Some show ?thesis by (simp add: main_write_def return_io_def)
  next
    case False
    have "main_write w a =
            bind_io (call (Read_file input_file) (file_read w input_file))
              (\<lambda>input_file_bytes.
            if args_force a then
              bind_io (print (''Writing keymap from '' @ input_file @ '' to keyboard.''))
                (\<lambda>_.
              bind_io (call (Send_feature_report Handle_d (write_keymap_buffer input_file_bytes))
                         (hid_send_feature_report w Handle_d (write_keymap_buffer input_file_bytes)))
                (\<lambda>send_result.
              print (''Sent '' @ str_int send_result @ '' bytes to keyboard.'')))
            else
              bind_io (print (''Command to write keymap from '' @ input_file
                              @ '' to keyboard (no action taken, use -f to execute).''))
                (\<lambda>_.
              bind_io (print (list_to_hex (write_keymap_buffer input_file_bytes)))
                (\<lambda>_.
              print (''Length: '' @ str_nat (length (write_keymap_buffer input_file_bytes))
                     @ '' bytes''))))"
      using Some False by (simp add: main_write_def)
    then show ?thesis
      by (cases "args_force a"; simp only: if_True if_False)
         (intro events_bind events_call events_print; simp)+
  qed
qed

lemma operation_events:
  "\<forall>ev\<in>set (fst (bind_io (main_read w a) (\<lambda>_. main_write w a))).
     (is_feature_report ev \<and> args_force a) \<or> \<not> is_device_call ev"
  by (intro events_bind main_read_events main_write_events)

lemma example_resolution:
  "get_device_of vendor product [composite_dev, request_dev, consumer_dev, data_dev]
     = Inr (''hid#vid_05ac&pid_024f&mi_01&Col05'', ''hid#vid_05ac&pid_024f&mi_01&Col06'')"
  by (simp add: dev_defs get_device_of_def vendor_usage_def)

lemma feature_report_is_device_call: "is_feature_report ev \<Longrightarrow> is_device_call ev"
  by (cases ev) simp_all

lemma dry_write_operation:
  assumes "\<not> args_force a" and "args_write a = Some input_file" and "input_file \<noteq> []"
    and "\<not> truthy (args_read a)"
  shows "bind_io (main_read w a) (\<lambda>_. main_write w a) =
     (case file_read w input_file of
        Inl e \<Rightarrow> ([Read_file input_file], Inl e)
      | Inr input_file_bytes \<Rightarrow>
          ([Read_file input_file,
            Print (''Command to write keymap from '' @ input_file
                   @ '' to keyboard (no action taken, use -f to execute).''),
            Print (list_to_hex (write_keymap_buffer input_file_bytes)),
            Print (''Length: '' @ str_nat (length (write_keymap_buffer input_file_bytes))
                   @ '' bytes'')], Inr ()))"
  using assms
  by (cases "args_read a")
     (simp_all add: main_read_dry main_write_dry bind_io_def split: sum.splits)

section \<open>The claims\<close>

subsection \<open>C1: one request-marked and one data-marked descriptor\<close>

text \<open>
  Claim C1, as amended. Let the descriptors that pass the filter of line 38 (interface
  number not \<open>-1\<close>, usage 1, usage page \<open>0xff00\<close>) hold exactly one descriptor \<open>a\<close>
  whose path contains \<^verbatim>\<open>&Col05\<close> and exactly one descriptor \<open>b\<close> whose path contains
  \<^verbatim>\<open>&Col06\<close>, and let these be two descriptors. Then resolution succeeds and returns
  the pair of the path of \<open>a\<close> and the path of \<open>b\<close>, unchanged and in this order, for
  every vendor and product identifier.
\<close>

theorem resolution_one_request_one_data:
  assumes req: "filter (\<lambda>d. contains ''&Col05'' (path d)) (filter vendor_usage devices) = [a]"
      and dat: "filter (\<lambda>d. contains ''&Col06'' (path d)) (filter vendor_usage devices) = [b]"
      and two: "a \<noteq> b"
  shows "get_device_of v p devices = Inr (path a, path b)"
proof -
  have "b \<in> set (filter (\<lambda>d. contains ''&Col06'' (path d)) (filter vendor_usage devices))"
    unfolding dat by simp
  then have b: "b \<in> set (filter vendor_usage devices)" by simp
  have n5: "\<not> contains ''&Col05'' (path b)"
  proof
    assume "contains ''&Col05'' (path b)"
    with b have "b \<in> set (filter (\<lambda>d. contains ''&Col05'' (path d)) (filter vendor_usage devices))"
      by simp
    then have "b \<in> set [a]" unfolding req .
    then show False using two by simp
  qed
  have R: "request_candidates devices = [path a]"
  proof -
    have "filter (\<lambda>d. vendor_usage d \<and> contains ''&Col05'' (path d)) devices
          = filter (\<lambda>d. contains ''&Col05'' (path d)) (filter vendor_usage devices)"
      by (simp add: conj_commute)
    then show ?thesis by (simp only: request_candidates_def req list.map)
  qed
  have D: "data_candidates devices = [path b]"
  proof -
    have "filter (\<lambda>d. vendor_usage d \<and> \<not> contains ''&Col05'' (path d) \<and> contains ''&Col06'' (path d)) devices
          = filter (\<lambda>d. \<not> contains ''&Col05'' (path d))
              (filter (\<lambda>d. contains ''&Col06'' (path d)) (filter vendor_usage devices))"
      by (auto simp: conj_commute intro: filter_cong)
    then have "data_candidates devices = map path (filter (\<lambda>d. \<not> contains ''&Col05'' (path d)) [b])"
      by (simp only: data_candidates_def dat)
    then show ?thesis using n5 by simp
  qed
  from R D show ?thesis by (simp add: get_device_of_Inr_iff)
qed

theorem resolution_one_request_one_data_witness:
  "get_device_of vendor product [composite_dev, request_dev, consumer_dev, data_dev]
     = Inr (''hid#vid_05ac&pid_024f&mi_01&Col05'', ''hid#vid_05ac&pid_024f&mi_01&Col06'')"
proof -
  let ?devices = "[composite_dev, request_dev, consumer_dev, data_dev]"
  have req: "filter (\<lambda>d. contains ''&Col05'' (path d)) (filter vendor_usage ?devices) = [request_dev]"
    by (simp add: dev_defs vendor_usage_def)
  have dat: "filter (\<lambda>d. contains ''&Col06'' (path d)) (filter vendor_usage ?devices) = [data_dev]"
    by (simp add: dev_defs vendor_usage_def)
  have two: "request_dev \<noteq> data_dev"
    by (simp add: dev_defs)
  from resolution_one_request_one_data[OF req dat two, of vendor product]
  show ?thesis by (simp add: request_dev_def data_dev_def)
qed

text \<open>
  Without the condition that they are two descriptors the claim fails: a single filtered
  descriptor whose path carries both markers is the one with \<^verbatim>\<open>&Col05\<close> and the one
  with \<^verbatim>\<open>&Col06\<close>, and resolution raises \<^verbatim>\<open>No data device found\<close>.
\<close>

theorem single_descriptor_with_both_markers:
  "filter (\<lambda>d. contains ''&Col05'' (path d)) (filter vendor_usage [both_markers_dev]) = [both_markers_dev]
   \<and> filter (\<lambda>d. contains ''&Col06'' (path d)) (filter vendor_usage [both_markers_dev]) = [both_markers_dev]
   \<and> get_device_of vendor product [both_markers_dev] = Inl (Exception ''No data device found'')"
  by (simp add: dev_defs vendor_usage_def get_device_of_def)

subsection \<open>C2: the failures of resolution\<close>

text \<open>
  Claim C2, as amended. Write \<open>R\<close> for the paths of the filtered descriptors that contain
  \<^verbatim>\<open>&Col05\<close> and \<open>D\<close> for the paths of the filtered descriptors that contain
  \<^verbatim>\<open>&Col06\<close> but not \<^verbatim>\<open>&Col05\<close>, both in enumeration order. Resolution returns a
  channel selection exactly when \<open>R\<close> and \<open>D\<close> have one path each, and then it returns
  these two. Otherwise it fails:
  \<^item> with \<^verbatim>\<open>No devices matching VID: 05ac PID: 024f found\<close> when the enumeration is
    empty;
  \<^item> with \<^verbatim>\<open>Multiple request devices found: P1 and P2\<close>, \<open>P1\<close> and \<open>P2\<close> the first two
    paths of \<open>R\<close>, when \<open>R\<close> has two or more paths and \<open>D\<close> at most one, and with
    \<^verbatim>\<open>Multiple data devices found: P1 and P2\<close> in the mirrored case; when both have two
    or more paths, with one of these two messages (the scan stops at the first path that
    finds its slot taken). The paths named are taken to be valid UTF-8;
  \<^item> with \<^verbatim>\<open>No request device found\<close> when \<open>R\<close> is empty and \<open>D\<close> has at most one
    path, and with \<^verbatim>\<open>No data device found\<close> when \<open>R\<close> has one path and \<open>D\<close> is empty.
\<close>

theorem resolution_failures:
  assumes R: "R = request_candidates devices" and D: "D = data_candidates devices"
  shows
   "(devices = [] \<longrightarrow>
       get_device_of vendor product devices
         = Inl (Exception ''No devices matching VID: 05ac PID: 024f found''))
    \<and> (devices \<noteq> [] \<and> 2 \<le> length R \<and> length D \<le> 1 \<and> utf8_valid (R ! 0) \<and> utf8_valid (R ! 1) \<longrightarrow>
       get_device_of vendor product devices
         = Inl (Exception (''Multiple request devices found: '' @ R ! 0 @ '' and '' @ R ! 1)))
    \<and> (devices \<noteq> [] \<and> length R \<le> 1 \<and> 2 \<le> length D \<and> utf8_valid (D ! 0) \<and> utf8_valid (D ! 1) \<longrightarrow>
       get_device_of vendor product devices
         = Inl (Exception (''Multiple data devices found: '' @ D ! 0 @ '' and '' @ D ! 1)))
    \<and> (devices \<noteq> [] \<and> 2 \<le> length R \<and> 2 \<le> length D
         \<and> utf8_valid (R ! 0) \<and> utf8_valid (R ! 1) \<and> utf8_valid (D ! 0) \<and> utf8_valid (D ! 1) \<longrightarrow>
       get_device_of vendor product devices
         = Inl (Exception (''Multiple request devices found: '' @ R ! 0 @ '' and '' @ R ! 1))
       \<or> get_device_of vendor product devices
         = Inl (Exception (''Multiple data devices found: '' @ D ! 0 @ '' and '' @ D ! 1)))
    \<and> (devices \<noteq> [] \<and> R = [] \<and> length D \<le> 1 \<longrightarrow>
       get_device_of vendor product devices = Inl (Exception ''No request device found''))
    \<and> (devices \<noteq> [] \<and> length R = 1 \<and> D = [] \<longrightarrow>
       get_device_of vendor product devices = Inl (Exception ''No data device found''))
    \<and> ((\<exists>selection. get_device_of vendor product devices = Inr selection)
         \<longleftrightarrow> length R = 1 \<and> length D = 1)
    \<and> (length R = 1 \<and> length D = 1 \<longrightarrow>
       get_device_of vendor product devices = Inr (R ! 0, D ! 0))"
proof -
  have msg: "''No devices matching VID: '' @ format_x 4 vendor @ '' PID: '' @ format_x 4 product @ '' found''
     = ''No devices matching VID: 05ac PID: 024f found''"
    by code_simp
  have c1: "devices = [] \<Longrightarrow> get_device_of vendor product devices
         = Inl (Exception ''No devices matching VID: 05ac PID: 024f found'')"
    using msg by (simp add: get_device_of_def)
  have fail: "2 \<le> length R \<or> 2 \<le> length D \<Longrightarrow>
      (2 \<le> length R \<and> get_device_loop devices ([], []) = Inl (multiple_found ''request'' (R ! 0) (R ! 1)))
      \<or> (2 \<le> length D \<and> get_device_loop devices ([], []) = Inl (multiple_found ''data'' (D ! 0) (D ! 1)))"
    using loop_failure[of "[]" devices "[]"] by (simp add: held_Nil R D)
  have mf: "\<And>kind x y. utf8_valid x \<Longrightarrow> utf8_valid y \<Longrightarrow>
      multiple_found kind x y = Exception (''Multiple '' @ kind @ '' devices found: '' @ x @ '' and '' @ y)"
    by (simp add: multiple_found_def decode_def)
  have of_fail: "\<And>e. devices \<noteq> [] \<Longrightarrow> get_device_loop devices ([], []) = Inl e \<Longrightarrow>
      get_device_of vendor product devices = Inl e"
    by (simp add: get_device_of_def)
  have c2: "devices \<noteq> [] \<and> 2 \<le> length R \<and> length D \<le> 1 \<and> utf8_valid (R ! 0) \<and> utf8_valid (R ! 1) \<Longrightarrow>
       get_device_of vendor product devices
         = Inl (Exception (''Multiple request devices found: '' @ R ! 0 @ '' and '' @ R ! 1))"
    using fail of_fail mf[of "R ! 0" "R ! 1" "''request''"] by auto
  have c3: "devices \<noteq> [] \<and> length R \<le> 1 \<and> 2 \<le> length D \<and> utf8_valid (D ! 0) \<and> utf8_valid (D ! 1) \<Longrightarrow>
       get_device_of vendor product devices
         = Inl (Exception (''Multiple data devices found: '' @ D ! 0 @ '' and '' @ D ! 1))"
    using fail of_fail mf[of "D ! 0" "D ! 1" "''data''"] by auto
  have c4: "devices \<noteq> [] \<and> 2 \<le> length R \<and> 2 \<le> length D
         \<and> utf8_valid (R ! 0) \<and> utf8_valid (R ! 1) \<and> utf8_valid (D ! 0) \<and> utf8_valid (D ! 1) \<Longrightarrow>
       get_device_of vendor product devices
         = Inl (Exception (''Multiple request devices found: '' @ R ! 0 @ '' and '' @ R ! 1))
       \<or> get_device_of vendor product devices
         = Inl (Exception (''Multiple data devices found: '' @ D ! 0 @ '' and '' @ D ! 1))"
    using fail of_fail mf[of "R ! 0" "R ! 1" "''request''"] mf[of "D ! 0" "D ! 1" "''data''"] by auto
  have ok: "length R \<le> 1 \<Longrightarrow> length D \<le> 1 \<Longrightarrow>
      get_device_loop devices ([], []) = Inr (concat R, concat D)"
    using loop_success[of "[]" devices "[]"] by (simp add: held_Nil R D)
  have c5: "devices \<noteq> [] \<and> R = [] \<and> length D \<le> 1 \<Longrightarrow>
       get_device_of vendor product devices = Inl (Exception ''No request device found'')"
    using ok by (simp add: get_device_of_def)
  have c6: "devices \<noteq> [] \<and> length R = 1 \<and> D = [] \<Longrightarrow>
       get_device_of vendor product devices = Inl (Exception ''No data device found'')"
  proof -
    assume h: "devices \<noteq> [] \<and> length R = 1 \<and> D = []"
    then obtain x where x: "R = [x]" by (cases R) auto
    then have "x \<noteq> []" using request_candidates_nonempty[of x devices] R by simp
    with h x ok show ?thesis by (simp add: get_device_of_def)
  qed
  have c7: "(\<exists>selection. get_device_of vendor product devices = Inr selection)
         \<longleftrightarrow> length R = 1 \<and> length D = 1"
    using get_device_of_Inr_iff[of vendor product devices] R D
    by (auto simp: singleton_length) 
  have c8: "length R = 1 \<and> length D = 1 \<Longrightarrow>
       get_device_of vendor product devices = Inr (R ! 0, D ! 0)"
    using get_device_of_Inr_iff[of vendor product devices] R D
    by (auto simp: singleton_length)
  from c1 c2 c3 c4 c5 c6 c7 c8 show ?thesis by blast
qed

text \<open>
  The claim as it was stated counts every filtered descriptor whose path contains a
  marker. It fails on two filtered descriptors with \<^verbatim>\<open>&Col06\<close> in their paths of which
  the first has \<^verbatim>\<open>&Col05\<close> as well: the \<^verbatim>\<open>elif\<close> of line 44 never tests the first
  for the data marker, and resolution succeeds.
\<close>

theorem two_data_marked_descriptors_resolve:
  "2 \<le> length (filter (\<lambda>d. contains ''&Col06'' (path d))
                  (filter vendor_usage [both_markers_dev, data_dev]))
   \<and> get_device_of vendor product [both_markers_dev, data_dev]
       = Inr (''hid#vid_05ac&pid_024f&Col05&Col06'', ''hid#vid_05ac&pid_024f&mi_01&Col06'')"
  by (simp add: dev_defs vendor_usage_def get_device_of_def)

theorem resolution_failures_witness:
  "get_device_of vendor product []
     = Inl (Exception ''No devices matching VID: 05ac PID: 024f found'')
   \<and> get_device_of vendor product [request_dev, second_request_dev, data_dev]
     = Inl (Exception ''Multiple request devices found: hid#vid_05ac&pid_024f&mi_01&Col05 and hid#vid_05ac&pid_024f&mi_02&Col05'')
   \<and> get_device_of vendor product [request_dev, data_dev, composite_dev, second_data_dev]
     = Inl (Exception ''Multiple data devices found: hid#vid_05ac&pid_024f&mi_01&Col06 and hid#vid_05ac&pid_024f&mi_02&Col06'')
   \<and> get_device_of vendor product [composite_dev, data_dev]
     = Inl (Exception ''No request device found'')
   \<and> get_device_of vendor product [request_dev, consumer_dev]
     = Inl (Exception ''No data device found'')
   \<and> get_device_of vendor product [composite_dev, request_dev, consumer_dev, data_dev]
     = Inr (''hid#vid_05ac&pid_024f&mi_01&Col05'', ''hid#vid_05ac&pid_024f&mi_01&Col06'')
   \<and> (\<exists>selection. get_device_of vendor product [composite_dev, request_dev, consumer_dev, data_dev]
         = Inr selection)"
proof -
  have v: "utf8_valid ''hid#vid_05ac&pid_024f&mi_01&Col05''" "utf8_valid ''hid#vid_05ac&pid_024f&mi_02&Col05''"
    "utf8_valid ''hid#vid_05ac&pid_024f&mi_01&Col06''" "utf8_valid ''hid#vid_05ac&pid_024f&mi_02&Col06''"
    by code_simp+
  have 1: "get_device_of vendor product []
     = Inl (Exception ''No devices matching VID: 05ac PID: 024f found'')"
    using resolution_failures[OF refl refl, of "[]"] by simp
  have 2: "get_device_of vendor product [request_dev, second_request_dev, data_dev]
     = Inl (Exception ''Multiple request devices found: hid#vid_05ac&pid_024f&mi_01&Col05 and hid#vid_05ac&pid_024f&mi_02&Col05'')"
    using resolution_failures[OF refl refl, of "[request_dev, second_request_dev, data_dev]"] v
    by (simp add: request_candidates_def data_candidates_def dev_defs vendor_usage_def)
  have 3: "get_device_of vendor product [request_dev, data_dev, composite_dev, second_data_dev]
     = Inl (Exception ''Multiple data devices found: hid#vid_05ac&pid_024f&mi_01&Col06 and hid#vid_05ac&pid_024f&mi_02&Col06'')"
    using resolution_failures[OF refl refl, of "[request_dev, data_dev, composite_dev, second_data_dev]"] v
    by (simp add: request_candidates_def data_candidates_def dev_defs vendor_usage_def)
  have 4: "get_device_of vendor product [composite_dev, data_dev]
     = Inl (Exception ''No request device found'')"
    using resolution_failures[OF refl refl, of "[composite_dev, data_dev]"]
    by (simp add: request_candidates_def data_candidates_def dev_defs vendor_usage_def)
  have 5: "get_device_of vendor product [request_dev, consumer_dev]
     = Inl (Exception ''No data device found'')"
    using resolution_failures[OF refl refl, of "[request_dev, consumer_dev]"]
    by (simp add: request_candidates_def data_candidates_def dev_defs vendor_usage_def)
  have 6: "get_device_of vendor product [composite_dev, request_dev, consumer_dev, data_dev]
     = Inr (''hid#vid_05ac&pid_024f&mi_01&Col05'', ''hid#vid_05ac&pid_024f&mi_01&Col06'')"
    using resolution_failures[OF refl refl, of "[composite_dev, request_dev, consumer_dev, data_dev]"]
    by (simp add: request_candidates_def data_candidates_def dev_defs vendor_usage_def)
  from 1 2 3 4 5 6 show ?thesis by simp
qed

subsection \<open>C3: the forced read\<close>

text \<open>
  Claim C3. In a forced read on which resolution, both opens, the two transport calls and
  the writing of the output file succeed, the program sends exactly the 6-byte header
  \<open>05 84 d8 00 00 00\<close> as a feature report on the request handle \<open>r\<close>, then asks for
  the feature report with report id \<open>0x06\<close> and maximal length \<open>0x7ff\<close> on the data
  handle \<open>d\<close>, and writes to the output file the response without its first 8 bytes;
  the run ends without an exception. For a response of fewer than 8 bytes what is
  written is empty.
\<close>

theorem forced_read:
  assumes "args_read a = Some output_file" and "output_file \<noteq> []"
    and "\<not> truthy (args_write a)" and "args_force a"
    and "get_device_of vendor product (hid_enumerate w vendor product) = Inr (request_path, data_path)"
    and "hid_open_path w Handle_r request_path = Inr ()"
    and "hid_open_path w Handle_d data_path = Inr ()"
    and "hid_send_feature_report w Handle_r [0x05, 0x84, 0xd8, 0x00, 0x00, 0x00] = Inr send_result"
    and "hid_get_feature_report w Handle_d 0x06 0x7ff = Inr receive_result"
    and "file_write w output_file (drop 8 receive_result) = Inr ()"
  shows "main w a =
     ([Enumerate vendor product,
       Open_path Handle_r request_path,
       Open_path Handle_d data_path,
       Print (''Reading keymap from keyboard and saving to '' @ output_file @ ''.''),
       Send_feature_report Handle_r [0x05, 0x84, 0xd8, 0x00, 0x00, 0x00],
       Print (''Sent '' @ str_int send_result @ '' bytes to keyboard.''),
       Get_feature_report Handle_d 0x06 0x7ff,
       Print (''Received '' @ str_nat (length receive_result) @ '' bytes from keyboard.''),
       Write_file output_file (drop 8 receive_result),
       Close Handle_r,
       Close Handle_d], Inr ())
     \<and> (length receive_result < 8 \<longrightarrow> drop 8 receive_result = [])"
  using assms
  by (cases "args_write a")
     (simp_all add: main_def main_read_def main_write_def get_device_def io_defs
        max_request_size_def get_keymap_header_def receive_result_pruned_def)

theorem forced_read_witness:
  "main (keyboard [composite_dev, request_dev, consumer_dev, data_dev] [1, 2, 3, 4, 5, 6, 7, 8, 9, 10] [])
        (read_args True) =
     ([Enumerate 0x05ac 0x024f,
       Open_path Handle_r ''hid#vid_05ac&pid_024f&mi_01&Col05'',
       Open_path Handle_d ''hid#vid_05ac&pid_024f&mi_01&Col06'',
       Print ''Reading keymap from keyboard and saving to keymap.bin.'',
       Send_feature_report Handle_r [0x05, 0x84, 0xd8, 0x00, 0x00, 0x00],
       Print ''Sent 6 bytes to keyboard.'',
       Get_feature_report Handle_d 0x06 0x7ff,
       Print ''Received 10 bytes from keyboard.'',
       Write_file ''keymap.bin'' [9, 10],
       Close Handle_r,
       Close Handle_d], Inr ())
   \<and> main (keyboard [composite_dev, request_dev, consumer_dev, data_dev] [1, 2, 3] [])
        (read_args True) =
     ([Enumerate 0x05ac 0x024f,
       Open_path Handle_r ''hid#vid_05ac&pid_024f&mi_01&Col05'',
       Open_path Handle_d ''hid#vid_05ac&pid_024f&mi_01&Col06'',
       Print ''Reading keymap from keyboard and saving to keymap.bin.'',
       Send_feature_report Handle_r [0x05, 0x84, 0xd8, 0x00, 0x00, 0x00],
       Print ''Sent 6 bytes to keyboard.'',
       Get_feature_report Handle_d 0x06 0x7ff,
       Print ''Received 3 bytes from keyboard.'',
       Write_file ''keymap.bin'' [],
       Close Handle_r,
       Close Handle_d], Inr ())"
proof -
  have n: "str_int 6 = ''6''"
    "str_nat (length [1, 2, 3, 4, 5, 6, 7, 8, 9, 10 :: byte]) = ''10''"
    "str_nat (length [1, 2, 3 :: byte]) = ''3''"
    by code_simp+
  let ?devices = "[composite_dev, request_dev, consumer_dev, data_dev]"
  have long: "main (keyboard ?devices [1, 2, 3, 4, 5, 6, 7, 8, 9, 10] []) (read_args True) =
     ([Enumerate 0x05ac 0x024f,
       Open_path Handle_r ''hid#vid_05ac&pid_024f&mi_01&Col05'',
       Open_path Handle_d ''hid#vid_05ac&pid_024f&mi_01&Col06'',
       Print ''Reading keymap from keyboard and saving to keymap.bin.'',
       Send_feature_report Handle_r [0x05, 0x84, 0xd8, 0x00, 0x00, 0x00],
       Print ''Sent 6 bytes to keyboard.'',
       Get_feature_report Handle_d 0x06 0x7ff,
       Print ''Received 10 bytes from keyboard.'',
       Write_file ''keymap.bin'' [9, 10],
       Close Handle_r,
       Close Handle_d], Inr ())"
    using forced_read[where a = "read_args True" and output_file = "''keymap.bin''"
        and w = "keyboard ?devices [1, 2, 3, 4, 5, 6, 7, 8, 9, 10] []"
        and request_path = "''hid#vid_05ac&pid_024f&mi_01&Col05''"
        and data_path = "''hid#vid_05ac&pid_024f&mi_01&Col06''"
        and send_result = 6 and receive_result = "[1, 2, 3, 4, 5, 6, 7, 8, 9, 10]"]
      example_resolution n
    by (simp add: keyboard_def read_args_def vendor_def product_def)
  have short: "main (keyboard ?devices [1, 2, 3] []) (read_args True) =
     ([Enumerate 0x05ac 0x024f,
       Open_path Handle_r ''hid#vid_05ac&pid_024f&mi_01&Col05'',
       Open_path Handle_d ''hid#vid_05ac&pid_024f&mi_01&Col06'',
       Print ''Reading keymap from keyboard and saving to keymap.bin.'',
       Send_feature_report Handle_r [0x05, 0x84, 0xd8, 0x00, 0x00, 0x00],
       Print ''Sent 6 bytes to keyboard.'',
       Get_feature_report Handle_d 0x06 0x7ff,
       Print ''Received 3 bytes from keyboard.'',
       Write_file ''keymap.bin'' [],
       Close Handle_r,
       Close Handle_d], Inr ())"
    using forced_read[where a = "read_args True" and output_file = "''keymap.bin''"
        and w = "keyboard ?devices [1, 2, 3] []"
        and request_path = "''hid#vid_05ac&pid_024f&mi_01&Col05''"
        and data_path = "''hid#vid_05ac&pid_024f&mi_01&Col06''"
        and send_result = 6 and receive_result = "[1, 2, 3]"]
      example_resolution n
    by (simp add: keyboard_def read_args_def vendor_def product_def)
  from long short show ?thesis by (rule conjI)
qed

subsection \<open>C4: what a dry run prints\<close>

text \<open>
  Claim C4, as amended. In a dry run the program prints the frame with
  \<^verbatim>\<open>list_to_hex\<close>, as one line of two-digit lower-case hexadecimal bytes separated by
  single blanks, and after it the line \<^verbatim>\<open>Length: N bytes\<close>. For the read header the two
  lines are \<^verbatim>\<open>05 84 d8 00 00 00\<close> and \<^verbatim>\<open>Length: 6 bytes\<close>; for a write of the blob \<open>B\<close>
  they are the dump of the 8-byte header followed by \<open>B\<close> and the length \<open>8 + |B|\<close>, so
  \<^verbatim>\<open>06 04 d8 00 40 00 00 00 aa bb\<close> and 10 bytes for the payload \<open>[0xAA, 0xBB]\<close>. The dump
  in 4-byte columns with 4-digit offsets is what the helper
  \<^verbatim>\<open>format_to_hex_template\<close> returns, which \<^verbatim>\<open>main\<close> does not call: the two lines
  \<^verbatim>\<open>0000  05 84 d8 00\<close> and \<^verbatim>\<open>0004  00 00\<close> for the read header, and the first line
  \<^verbatim>\<open>0000  06 04 d8 00\<close> for that write frame.
\<close>

theorem dry_run_dump:
  assumes "\<not> args_force a"
    and "get_device_of vendor product (hid_enumerate w vendor product) = Inr (request_path, data_path)"
    and "hid_open_path w Handle_r request_path = Inr ()"
    and "hid_open_path w Handle_d data_path = Inr ()"
  shows
   "(args_read a = Some output_file \<and> output_file \<noteq> [] \<and> \<not> truthy (args_write a) \<longrightarrow>
       main w a =
         ([Enumerate vendor product,
           Open_path Handle_r request_path,
           Open_path Handle_d data_path,
           Print (''Command to read keymap and save to '' @ output_file
                  @ '' (no action taken, use -f to execute).''),
           Print ''05 84 d8 00 00 00'',
           Print ''Length: 6 bytes'',
           Close Handle_r,
           Close Handle_d], Inr ()))
    \<and> (args_write a = Some input_file \<and> input_file \<noteq> [] \<and> \<not> truthy (args_read a)
         \<and> file_read w input_file = Inr B \<longrightarrow>
       main w a =
         ([Enumerate vendor product,
           Open_path Handle_r request_path,
           Open_path Handle_d data_path,
           Read_file input_file,
           Print (''Command to write keymap from '' @ input_file
                  @ '' to keyboard (no action taken, use -f to execute).''),
           Print (list_to_hex ([0x06, 0x04, 0xd8, 0x00, 0x40, 0x00, 0x00, 0x00] @ B)),
           Print (''Length: '' @ str_nat (8 + length B) @ '' bytes''),
           Close Handle_r,
           Close Handle_d], Inr ()))
    \<and> list_to_hex ([0x06, 0x04, 0xd8, 0x00, 0x40, 0x00, 0x00, 0x00] @ [0xAA, 0xBB])
         = ''06 04 d8 00 40 00 00 00 aa bb''
    \<and> str_nat (8 + length [0xAA, 0xBB :: byte]) = ''10''
    \<and> format_to_hex_template get_keymap_header
         = ''0000  05 84 d8 00'' @ [CHR 0x0A] @ ''0004  00 00'' @ [CHR 0x0A]
    \<and> first_line (format_to_hex_template (set_keymap_header @ [0xAA, 0xBB]))
         = ''0000  06 04 d8 00''"
proof -
  have hdr: "list_to_hex get_keymap_header = ''05 84 d8 00 00 00''"
    "str_nat (length get_keymap_header) = ''6''"
    by code_simp+
  have rd: "args_read a = Some output_file \<and> output_file \<noteq> [] \<and> \<not> truthy (args_write a) \<Longrightarrow>
       main w a =
         ([Enumerate vendor product,
           Open_path Handle_r request_path,
           Open_path Handle_d data_path,
           Print (''Command to read keymap and save to '' @ output_file
                  @ '' (no action taken, use -f to execute).''),
           Print ''05 84 d8 00 00 00'',
           Print ''Length: 6 bytes'',
           Close Handle_r,
           Close Handle_d], Inr ())"
    using assms hdr
    by (cases "args_write a")
       (simp_all add: main_def main_read_def main_write_def get_device_def io_defs)
  have lenw: "length (write_keymap_buffer B) = 8 + length B"
    by (simp add: write_keymap_buffer_def set_keymap_header_def)
  have wkb: "write_keymap_buffer B = [0x06, 0x04, 0xd8, 0x00, 0x40, 0x00, 0x00, 0x00] @ B"
    by (simp add: write_keymap_buffer_def set_keymap_header_def)
  have wr0: "args_write a = Some input_file \<and> input_file \<noteq> [] \<and> \<not> truthy (args_read a)
         \<and> file_read w input_file = Inr B \<Longrightarrow>
       main w a =
         ([Enumerate vendor product,
           Open_path Handle_r request_path,
           Open_path Handle_d data_path,
           Read_file input_file,
           Print (''Command to write keymap from '' @ input_file
                  @ '' to keyboard (no action taken, use -f to execute).''),
           Print (list_to_hex (write_keymap_buffer B)),
           Print (''Length: '' @ str_nat (length (write_keymap_buffer B)) @ '' bytes''),
           Close Handle_r,
           Close Handle_d], Inr ())"
    using assms
    by (cases "args_read a")
       (simp_all add: main_def main_read_def main_write_def get_device_def io_defs)
  have wr: "args_write a = Some input_file \<and> input_file \<noteq> [] \<and> \<not> truthy (args_read a)
         \<and> file_read w input_file = Inr B \<Longrightarrow>
       main w a =
         ([Enumerate vendor product,
           Open_path Handle_r request_path,
           Open_path Handle_d data_path,
           Read_file input_file,
           Print (''Command to write keymap from '' @ input_file
                  @ '' to keyboard (no action taken, use -f to execute).''),
           Print (list_to_hex ([0x06, 0x04, 0xd8, 0x00, 0x40, 0x00, 0x00, 0x00] @ B)),
           Print (''Length: '' @ str_nat (8 + length B) @ '' bytes''),
           Close Handle_r,
           Close Handle_d], Inr ())"
    using wr0[unfolded lenw] unfolding wkb .
  have c1: "list_to_hex ([0x06, 0x04, 0xd8, 0x00, 0x40, 0x00, 0x00, 0x00] @ [0xAA, 0xBB])
         = ''06 04 d8 00 40 00 00 00 aa bb''"
    by code_simp
  have c2: "str_nat (8 + length [0xAA, 0xBB :: byte]) = ''10''"
    by code_simp
  have c3: "format_to_hex_template get_keymap_header
         = ''0000  05 84 d8 00'' @ [CHR 0x0A] @ ''0004  00 00'' @ [CHR 0x0A]"
    by code_simp
  have c4: "first_line (format_to_hex_template (set_keymap_header @ [0xAA, 0xBB]))
         = ''0000  06 04 d8 00''"
    by code_simp
  from rd wr c1 c2 c3 c4 show ?thesis by blast
qed

theorem dry_run_dump_witness:
  "main (keyboard [composite_dev, request_dev, consumer_dev, data_dev] [] [0xAA, 0xBB])
        (read_args False) =
     ([Enumerate 0x05ac 0x024f,
       Open_path Handle_r ''hid#vid_05ac&pid_024f&mi_01&Col05'',
       Open_path Handle_d ''hid#vid_05ac&pid_024f&mi_01&Col06'',
       Print ''Command to read keymap and save to keymap.bin (no action taken, use -f to execute).'',
       Print ''05 84 d8 00 00 00'',
       Print ''Length: 6 bytes'',
       Close Handle_r,
       Close Handle_d], Inr ())
   \<and> main (keyboard [composite_dev, request_dev, consumer_dev, data_dev] [] [0xAA, 0xBB])
        (write_args False) =
     ([Enumerate 0x05ac 0x024f,
       Open_path Handle_r ''hid#vid_05ac&pid_024f&mi_01&Col05'',
       Open_path Handle_d ''hid#vid_05ac&pid_024f&mi_01&Col06'',
       Read_file ''keymap.bin'',
       Print ''Command to write keymap from keymap.bin to keyboard (no action taken, use -f to execute).'',
       Print ''06 04 d8 00 40 00 00 00 aa bb'',
       Print ''Length: 10 bytes'',
       Close Handle_r,
       Close Handle_d], Inr ())"
proof -
  let ?w = "keyboard [composite_dev, request_dev, consumer_dev, data_dev] [] [0xAA, 0xBB]"
  have res: "get_device_of vendor product (hid_enumerate ?w vendor product)
      = Inr (''hid#vid_05ac&pid_024f&mi_01&Col05'', ''hid#vid_05ac&pid_024f&mi_01&Col06'')"
    using example_resolution by (simp add: keyboard_def)
  have r: "hid_open_path ?w Handle_r ''hid#vid_05ac&pid_024f&mi_01&Col05'' = Inr ()"
    and d: "hid_open_path ?w Handle_d ''hid#vid_05ac&pid_024f&mi_01&Col06'' = Inr ()"
    by (simp_all add: keyboard_def)
  have dry_r: "\<not> args_force (read_args False)" and dry_w: "\<not> args_force (write_args False)"
    by (simp_all add: read_args_def write_args_def)
  note rd = dry_run_dump[OF dry_r res r d, where output_file = "''keymap.bin''"]
  note wr = dry_run_dump[OF dry_w res r d, where input_file = "''keymap.bin''" and B = "[0xAA, 0xBB]"]
  have 1: "main ?w (read_args False) =
     ([Enumerate 0x05ac 0x024f,
       Open_path Handle_r ''hid#vid_05ac&pid_024f&mi_01&Col05'',
       Open_path Handle_d ''hid#vid_05ac&pid_024f&mi_01&Col06'',
       Print ''Command to read keymap and save to keymap.bin (no action taken, use -f to execute).'',
       Print ''05 84 d8 00 00 00'',
       Print ''Length: 6 bytes'',
       Close Handle_r,
       Close Handle_d], Inr ())"
    using rd by (simp add: read_args_def vendor_def product_def)
  have 2: "main ?w (write_args False) =
     ([Enumerate 0x05ac 0x024f,
       Open_path Handle_r ''hid#vid_05ac&pid_024f&mi_01&Col05'',
       Open_path Handle_d ''hid#vid_05ac&pid_024f&mi_01&Col06'',
       Read_file ''keymap.bin'',
       Print ''Command to write keymap from keymap.bin to keyboard (no action taken, use -f to execute).'',
       Print ''06 04 d8 00 40 00 00 00 aa bb'',
       Print ''Length: 10 bytes'',
       Close Handle_r,
       Close Handle_d], Inr ())"
    using wr by (simp add: write_args_def keyboard_def vendor_def product_def)
  from 1 2 show ?thesis by (rule conjI)
qed

text \<open>
  The claim as it was stated has the dry run print the dump in 4-byte columns. The dry
  run of a read prints the header on one line, without offsets, and neither line of the
  column dump.
\<close>

theorem dry_run_prints_no_offsets:
  "fst (main (keyboard [composite_dev, request_dev, consumer_dev, data_dev] [] [])
             (read_args False)) =
     [Enumerate 0x05ac 0x024f,
      Open_path Handle_r ''hid#vid_05ac&pid_024f&mi_01&Col05'',
      Open_path Handle_d ''hid#vid_05ac&pid_024f&mi_01&Col06'',
      Print ''Command to read keymap and save to keymap.bin (no action taken, use -f to execute).'',
      Print ''05 84 d8 00 00 00'',
      Print ''Length: 6 bytes'',
      Close Handle_r,
      Close Handle_d]
   \<and> Print ''0000  05 84 d8 00'' \<notin> set (fst (main (keyboard [composite_dev, request_dev, consumer_dev, data_dev] [] [])
             (read_args False)))
   \<and> Print ''0004  00 00'' \<notin> set (fst (main (keyboard [composite_dev, request_dev, consumer_dev, data_dev] [] [])
             (read_args False)))
   \<and> Print (format_to_hex_template get_keymap_header)
        \<notin> set (fst (main (keyboard [composite_dev, request_dev, consumer_dev, data_dev] [] [])
             (read_args False)))"
proof -
  have hdr: "list_to_hex get_keymap_header = ''05 84 d8 00 00 00''"
    "str_nat (length get_keymap_header) = ''6''"
    by code_simp+
  have tmpl: "format_to_hex_template get_keymap_header
         = ''0000  05 84 d8 00'' @ [CHR 0x0A] @ ''0004  00 00'' @ [CHR 0x0A]"
    by code_simp
  have run: "fst (main (keyboard [composite_dev, request_dev, consumer_dev, data_dev] [] [])
             (read_args False)) =
     [Enumerate 0x05ac 0x024f,
      Open_path Handle_r ''hid#vid_05ac&pid_024f&mi_01&Col05'',
      Open_path Handle_d ''hid#vid_05ac&pid_024f&mi_01&Col06'',
      Print ''Command to read keymap and save to keymap.bin (no action taken, use -f to execute).'',
      Print ''05 84 d8 00 00 00'',
      Print ''Length: 6 bytes'',
      Close Handle_r,
      Close Handle_d]"
    using example_resolution hdr
    by (simp add: main_def main_read_def main_write_def get_device_def io_defs keyboard_def
          read_args_def vendor_def product_def)
  show ?thesis
    unfolding run tmpl by simp
qed

subsection \<open>C5: the write header and the read truncation agree\<close>

text \<open>
  Claim C5. For every blob \<open>B\<close> of at most 2047 bytes, the frame built for a write
  (\<open>write_keymap_buffer\<close>: the 8-byte write header followed by \<open>B\<close>), cut as a read
  response is cut (\<open>receive_result_pruned\<close>: the first 8 bytes dropped), is \<open>B\<close> again;
  the write header has 8 bytes, the number of bytes a read drops.
\<close>

theorem write_frame_round_trip:
  assumes "int (length B) \<le> max_request_size"
  shows "receive_result_pruned (write_keymap_buffer B) = B
         \<and> length set_keymap_header = 8
         \<and> length (write_keymap_buffer B) = 8 + length B"
  by (simp add: receive_result_pruned_def write_keymap_buffer_def set_keymap_header_def)

theorem write_frame_round_trip_witness:
  "receive_result_pruned (write_keymap_buffer [0xAA, 0xBB]) = [0xAA, 0xBB]
   \<and> receive_result_pruned (write_keymap_buffer (replicate 2047 0x11)) = replicate 2047 0x11"
proof -
  have small: "int (length [0xAA, 0xBB :: byte]) \<le> max_request_size"
    by (simp add: max_request_size_def)
  have full: "int (length (replicate 2047 (0x11 :: byte))) \<le> max_request_size"
    by (simp add: max_request_size_def)
  from write_frame_round_trip[OF small] write_frame_round_trip[OF full]
  show ?thesis by simp
qed

subsection \<open>C6: the forced write\<close>

text \<open>
  Claim C6. In a forced write of the blob \<open>B\<close> read from the input file, the program sends
  one feature report, on the data handle \<open>d\<close>, and the report is the 8-byte header
  \<open>06 04 d8 00 40 00 00 00\<close> followed by all of \<open>B\<close>. Nothing is sent on the request
  handle, and \<open>B\<close> is of any length: no hypothesis bounds it by \<open>max_request_size\<close>.
\<close>

theorem forced_write:
  assumes "args_write a = Some input_file" and "input_file \<noteq> []"
    and "\<not> truthy (args_read a)" and "args_force a"
    and "get_device_of vendor product (hid_enumerate w vendor product) = Inr (request_path, data_path)"
    and "hid_open_path w Handle_r request_path = Inr ()"
    and "hid_open_path w Handle_d data_path = Inr ()"
    and "file_read w input_file = Inr B"
    and "hid_send_feature_report w Handle_d ([0x06, 0x04, 0xd8, 0x00, 0x40, 0x00, 0x00, 0x00] @ B)
           = Inr send_result"
  shows "main w a =
     ([Enumerate vendor product,
       Open_path Handle_r request_path,
       Open_path Handle_d data_path,
       Read_file input_file,
       Print (''Writing keymap from '' @ input_file @ '' to keyboard.''),
       Send_feature_report Handle_d ([0x06, 0x04, 0xd8, 0x00, 0x40, 0x00, 0x00, 0x00] @ B),
       Print (''Sent '' @ str_int send_result @ '' bytes to keyboard.''),
       Close Handle_r,
       Close Handle_d], Inr ())"
  using assms
  by (cases "args_read a")
     (simp_all add: main_def main_read_def main_write_def get_device_def io_defs
        set_keymap_header_def write_keymap_buffer_def)

theorem forced_write_witness:
  "main (keyboard [composite_dev, request_dev, consumer_dev, data_dev] [] (replicate 4096 0xAB))
        (write_args True) =
     ([Enumerate 0x05ac 0x024f,
       Open_path Handle_r ''hid#vid_05ac&pid_024f&mi_01&Col05'',
       Open_path Handle_d ''hid#vid_05ac&pid_024f&mi_01&Col06'',
       Read_file ''keymap.bin'',
       Print ''Writing keymap from keymap.bin to keyboard.'',
       Send_feature_report Handle_d
         ([0x06, 0x04, 0xd8, 0x00, 0x40, 0x00, 0x00, 0x00] @ replicate 4096 0xAB),
       Print ''Sent 4104 bytes to keyboard.'',
       Close Handle_r,
       Close Handle_d], Inr ())"
proof -
  have n: "str_int 4104 = ''4104''"
    by code_simp
  show ?thesis
    using forced_write[where a = "write_args True" and input_file = "''keymap.bin''"
        and w = "keyboard [composite_dev, request_dev, consumer_dev, data_dev] [] (replicate 4096 0xAB)"
        and request_path = "''hid#vid_05ac&pid_024f&mi_01&Col05''"
        and data_path = "''hid#vid_05ac&pid_024f&mi_01&Col06''"
        and B = "replicate 4096 0xAB" and send_result = 4104]
      example_resolution n
    by (simp add: keyboard_def write_args_def vendor_def product_def)
qed

subsection \<open>C7: usage errors come before any device interaction\<close>




subsection \<open>C8: closing the handles\<close>

text \<open>
  Claim C8, as amended. On every run on which the two handles have been opened and the
  selected operation, forced or dry, then completes without an exception, both handles
  are closed: the run is the enumeration, the two opens, the events of the operation,
  none of which opens or closes a handle, and last \<^verbatim>\<open>r.close()\<close> and \<^verbatim>\<open>d.close()\<close>.
\<close>

theorem handles_closed_on_completion:
  assumes "snd (main w a) = Inr ()"
  shows "\<exists>request_path data_path t.
           hid_open_path w Handle_r request_path = Inr ()
           \<and> hid_open_path w Handle_d data_path = Inr ()
           \<and> fst (main w a) =
               [Enumerate vendor product, Open_path Handle_r request_path,
                Open_path Handle_d data_path] @ t @ [Close Handle_r, Close Handle_d]
           \<and> (\<forall>ev\<in>set t. is_feature_report ev \<or> \<not> is_device_call ev)"
proof -
  have u: "truthy (args_read a) \<noteq> truthy (args_write a)"
  proof
    assume "truthy (args_read a) = truthy (args_write a)"
    from main_usage[OF this, of w] assms show False by simp
  qed
  note shape = main_shape[OF u, of w]
  obtain rp dp where g: "get_device_of vendor product (hid_enumerate w vendor product) = Inr (rp, dp)"
    using shape assms
    by (cases "get_device_of vendor product (hid_enumerate w vendor product)") auto
  have r: "hid_open_path w Handle_r rp = Inr ()"
    using shape assms g by (cases "hid_open_path w Handle_r rp") auto
  have d: "hid_open_path w Handle_d dp = Inr ()"
    using shape assms g r by (cases "hid_open_path w Handle_d dp") auto
  obtain t res where op: "bind_io (main_read w a) (\<lambda>_. main_write w a) = (t, res)"
    by (cases "bind_io (main_read w a) (\<lambda>_. main_write w a)")
  have res: "res = Inr ()"
    using shape assms g r d op by (cases res) auto
  have tr: "fst (main w a) =
      [Enumerate vendor product, Open_path Handle_r rp, Open_path Handle_d dp] @ t
        @ [Close Handle_r, Close Handle_d]"
    using shape g r d op res by simp
  have ev: "\<forall>ev\<in>set t. is_feature_report ev \<or> \<not> is_device_call ev"
    using operation_events[of w a] op by auto
  from r d tr ev show ?thesis by blast
qed

theorem handles_closed_on_completion_witness:
  "(\<exists>t. fst (main (keyboard [composite_dev, request_dev, consumer_dev, data_dev] [] [0xAA, 0xBB])
               (write_args True))
         = t @ [Close Handle_r, Close Handle_d])
   \<and> snd (main (keyboard [composite_dev, request_dev, consumer_dev, data_dev] [] [0xAA, 0xBB])
               (write_args True)) = Inr ()"
proof -
  let ?run = "main (keyboard [composite_dev, request_dev, consumer_dev, data_dev] [] [0xAA, 0xBB])
               (write_args True)"
  have completes: "snd ?run = Inr ()"
    by (simp add: main_def main_read_def main_write_def get_device_def io_defs keyboard_def
          write_args_def example_resolution)
  from handles_closed_on_completion[OF completes]
  obtain request_path data_path t where
    "fst ?run = ([Enumerate vendor product, Open_path Handle_r request_path,
                Open_path Handle_d data_path] @ t) @ [Close Handle_r, Close Handle_d]"
    by auto
  then have "\<exists>t. fst ?run = t @ [Close Handle_r, Close Handle_d]" by blast
  with completes show ?thesis by simp
qed

text \<open>
  The claim as it was stated also covers the runs that fail after the opens. There the
  exception leaves \<^verbatim>\<open>main\<close> before lines 105 and 106: with a transport whose
  \<^verbatim>\<open>get_feature_report\<close> raises, a forced read opens both handles and closes none.
\<close>

theorem handles_left_open_on_failure:
  "main (unplugged [composite_dev, request_dev, consumer_dev, data_dev]) (read_args True) =
     ([Enumerate 0x05ac 0x024f,
       Open_path Handle_r ''hid#vid_05ac&pid_024f&mi_01&Col05'',
       Open_path Handle_d ''hid#vid_05ac&pid_024f&mi_01&Col06'',
       Print ''Reading keymap from keyboard and saving to keymap.bin.'',
       Send_feature_report Handle_r [0x05, 0x84, 0xd8, 0x00, 0x00, 0x00],
       Print ''Sent 6 bytes to keyboard.'',
       Get_feature_report Handle_d 0x06 0x7ff], Inl (OSError ''read error''))
   \<and> hid_open_path (unplugged [composite_dev, request_dev, consumer_dev, data_dev]) Handle_r
         ''hid#vid_05ac&pid_024f&mi_01&Col05'' = Inr ()
   \<and> hid_open_path (unplugged [composite_dev, request_dev, consumer_dev, data_dev]) Handle_d
         ''hid#vid_05ac&pid_024f&mi_01&Col06'' = Inr ()
   \<and> Close Handle_r \<notin> set (fst (main (unplugged [composite_dev, request_dev, consumer_dev, data_dev])
                                      (read_args True)))
   \<and> Close Handle_d \<notin> set (fst (main (unplugged [composite_dev, request_dev, consumer_dev, data_dev])
                                      (read_args True)))"
proof -
  have n: "str_int 6 = ''6''"
    by code_simp
  have run: "main (unplugged [composite_dev, request_dev, consumer_dev, data_dev]) (read_args True) =
     ([Enumerate 0x05ac 0x024f,
       Open_path Handle_r ''hid#vid_05ac&pid_024f&mi_01&Col05'',
       Open_path Handle_d ''hid#vid_05ac&pid_024f&mi_01&Col06'',
       Print ''Reading keymap from keyboard and saving to keymap.bin.'',
       Send_feature_report Handle_r [0x05, 0x84, 0xd8, 0x00, 0x00, 0x00],
       Print ''Sent 6 bytes to keyboard.'',
       Get_feature_report Handle_d 0x06 0x7ff], Inl (OSError ''read error''))"
    using example_resolution n
    by (simp add: main_def main_read_def main_write_def get_device_def io_defs keyboard_def
          unplugged_def read_args_def vendor_def product_def get_keymap_header_def
          max_request_size_def)
  show ?thesis
    unfolding run by (simp add: unplugged_def keyboard_def)
qed

subsection \<open>C9: descriptors with both markers, and descriptors outside the filter\<close>

text \<open>
  Claim C9. A filtered descriptor whose path contains both \<^verbatim>\<open>&Col05\<close> and
  \<^verbatim>\<open>&Col06\<close> takes the request slot only: the loop either raises the request
  duplicate or stores its path as the request path and leaves the data path as it was,
  and whenever resolution succeeds on a list that holds it, its path is the request path
  and is not the data path. A descriptor that fails the filter (interface number
  \<open>-1\<close>, or usage not 1, or usage page not \<open>0xff00\<close>) is skipped by the loop whatever its
  path contains: resolution on a list gives the same result, success or failure, with
  and without it, as long as another descriptor remains, and on it alone resolution
  finds no request device.
\<close>

theorem marker_classification:
  "(vendor_usage d \<and> contains ''&Col05'' (path d) \<and> contains ''&Col06'' (path d) \<longrightarrow>
      get_device_loop (d # ds) (request_path, data_path)
        = (if request_path \<noteq> [] then Inl (multiple_found ''request'' request_path (path d))
           else get_device_loop ds (path d, data_path))
      \<and> (d \<in> set devices \<and> get_device_of v p devices = Inr (rp, dp) \<longrightarrow>
            rp = path d \<and> dp \<noteq> path d))
   \<and> (\<not> vendor_usage d \<longrightarrow>
      get_device_loop (d # ds) (request_path, data_path)
        = get_device_loop ds (request_path, data_path)
      \<and> (xs @ ys \<noteq> [] \<longrightarrow> get_device_of v p (xs @ d # ys) = get_device_of v p (xs @ ys))
      \<and> get_device_of v p [d] = Inl (Exception ''No request device found''))"
proof (intro conjI impI)
  assume both: "vendor_usage d \<and> contains ''&Col05'' (path d) \<and> contains ''&Col06'' (path d)"
  then show "get_device_loop (d # ds) (request_path, data_path)
        = (if request_path \<noteq> [] then Inl (multiple_found ''request'' request_path (path d))
           else get_device_loop ds (path d, data_path))"
    by simp
  assume ok: "d \<in> set devices \<and> get_device_of v p devices = Inr (rp, dp)"
  then have cand: "request_candidates devices = [rp]" "data_candidates devices = [dp]"
    by (simp_all add: get_device_of_Inr_iff)
  from both ok have "path d \<in> set (request_candidates devices)"
    by (auto simp: request_candidates_def)
  with cand show "rp = path d" by simp
  have "dp \<in> set (data_candidates devices)" using cand by simp
  then have "\<not> contains ''&Col05'' dp" by (auto simp: data_candidates_def)
  with both show "dp \<noteq> path d" by auto
next
  assume out: "\<not> vendor_usage d"
  then show "get_device_loop (d # ds) (request_path, data_path)
        = get_device_loop ds (request_path, data_path)"
    by simp
  from out show "get_device_of v p [d] = Inl (Exception ''No request device found'')"
    by (simp add: get_device_of_def)
  assume "xs @ ys \<noteq> []"
  then show "get_device_of v p (xs @ d # ys) = get_device_of v p (xs @ ys)"
    using loop_skip[OF out, of xs ys "([], [])"] by (simp add: get_device_of_def)
qed

theorem marker_classification_witness:
  "get_device_loop [both_markers_dev] ([], ''hid#vid_05ac&pid_024f&mi_01&Col06'')
     = Inr (''hid#vid_05ac&pid_024f&Col05&Col06'', ''hid#vid_05ac&pid_024f&mi_01&Col06'')
   \<and> get_device_of vendor product [data_dev, both_markers_dev]
     = Inr (''hid#vid_05ac&pid_024f&Col05&Col06'', ''hid#vid_05ac&pid_024f&mi_01&Col06'')
   \<and> get_device_of vendor product [request_dev, composite_dev, data_dev]
     = get_device_of vendor product [request_dev, data_dev]
   \<and> get_device_of vendor product [request_dev, data_dev, consumer_dev]
     = Inr (''hid#vid_05ac&pid_024f&mi_01&Col05'', ''hid#vid_05ac&pid_024f&mi_01&Col06'')
   \<and> get_device_of vendor product [composite_dev] = Inl (Exception ''No request device found'')
   \<and> ''hid#vid_05ac&pid_024f&Col05&Col06'' = path both_markers_dev
   \<and> ''hid#vid_05ac&pid_024f&mi_01&Col06'' \<noteq> path both_markers_dev"
proof -
  have both: "vendor_usage both_markers_dev \<and> contains ''&Col05'' (path both_markers_dev)
      \<and> contains ''&Col06'' (path both_markers_dev)"
    by (simp add: both_markers_dev_def vendor_usage_def)
  have out: "\<not> vendor_usage composite_dev" "\<not> vendor_usage consumer_dev"
    by (simp_all add: composite_dev_def consumer_dev_def vendor_usage_def)
  have pair: "get_device_of vendor product [request_dev, data_dev]
     = Inr (''hid#vid_05ac&pid_024f&mi_01&Col05'', ''hid#vid_05ac&pid_024f&mi_01&Col06'')"
    by (simp add: dev_defs get_device_of_def vendor_usage_def)
  have 1: "get_device_loop [both_markers_dev] ([], ''hid#vid_05ac&pid_024f&mi_01&Col06'')
     = Inr (''hid#vid_05ac&pid_024f&Col05&Col06'', ''hid#vid_05ac&pid_024f&mi_01&Col06'')"
    using marker_classification[where d = both_markers_dev and ds = "[]" and request_path = "[]"
        and data_path = "''hid#vid_05ac&pid_024f&mi_01&Col06''"] both
    by (simp add: both_markers_dev_def)
  have 3: "get_device_of vendor product [request_dev, composite_dev, data_dev]
     = get_device_of vendor product [request_dev, data_dev]"
    using marker_classification[where d = composite_dev and xs = "[request_dev]" and ys = "[data_dev]"
        and v = vendor and p = product] out
    by simp
  have 4: "get_device_of vendor product [request_dev, data_dev, consumer_dev]
     = Inr (''hid#vid_05ac&pid_024f&mi_01&Col05'', ''hid#vid_05ac&pid_024f&mi_01&Col06'')"
    using marker_classification[where d = consumer_dev and xs = "[request_dev, data_dev]" and ys = "[]"
        and v = vendor and p = product] out pair
    by simp
  have 5: "get_device_of vendor product [composite_dev] = Inl (Exception ''No request device found'')"
    using marker_classification[where d = composite_dev and v = vendor and p = product] out
    by simp
  have 2: "get_device_of vendor product [data_dev, both_markers_dev]
     = Inr (''hid#vid_05ac&pid_024f&Col05&Col06'', ''hid#vid_05ac&pid_024f&mi_01&Col06'')"
    by (simp add: dev_defs get_device_of_def vendor_usage_def)
  have 6: "''hid#vid_05ac&pid_024f&Col05&Col06'' = path both_markers_dev
     \<and> ''hid#vid_05ac&pid_024f&mi_01&Col06'' \<noteq> path both_markers_dev"
    using marker_classification[where d = both_markers_dev and devices = "[data_dev, both_markers_dev]"
        and v = vendor and p = product and rp = "''hid#vid_05ac&pid_024f&Col05&Col06''"
        and dp = "''hid#vid_05ac&pid_024f&mi_01&Col06''"] both 2
    by simp
  from 1 2 3 4 5 6 show ?thesis by simp
qed

subsection \<open>C10: a dry run still resolves and opens the device\<close>

text \<open>
  Claim C10. Without the force flag, and with exactly one of the two targets set, the
  program still enumerates and resolves: a resolution error ends the run right after
  the enumeration. When resolution succeeds it opens the request handle and then the data
  handle before anything is printed, and for a write it then reads the input file, an
  error of that read ending the run. No dry run makes a feature-report call.
\<close>

theorem dry_run_still_uses_device:
  assumes dry: "\<not> args_force a" and usage: "truthy (args_read a) \<noteq> truthy (args_write a)"
  shows
   "(\<exists>t. fst (main w a) = Enumerate vendor product # t)
    \<and> (\<forall>ev\<in>set (fst (main w a)). \<not> is_feature_report ev)
    \<and> (get_device_of vendor product (hid_enumerate w vendor product) = Inl e \<longrightarrow>
         main w a = ([Enumerate vendor product], Inl e))
    \<and> (get_device_of vendor product (hid_enumerate w vendor product) = Inr (request_path, data_path)
         \<and> hid_open_path w Handle_r request_path = Inr ()
         \<and> hid_open_path w Handle_d data_path = Inr () \<longrightarrow>
         (\<exists>t. fst (main w a) =
                 [Enumerate vendor product, Open_path Handle_r request_path,
                  Open_path Handle_d data_path] @ t
               \<and> (\<forall>ev\<in>set t. \<not> is_device_call ev \<or> ev = Close Handle_r \<or> ev = Close Handle_d))
         \<and> (args_write a = Some input_file \<and> input_file \<noteq> [] \<longrightarrow>
              (\<exists>t. fst (main w a) =
                      [Enumerate vendor product, Open_path Handle_r request_path,
                       Open_path Handle_d data_path, Read_file input_file] @ t)
              \<and> (file_read w input_file = Inl e' \<longrightarrow>
                   main w a =
                     ([Enumerate vendor product, Open_path Handle_r request_path,
                       Open_path Handle_d data_path, Read_file input_file], Inl e'))))"
proof -
  note shape = main_shape[OF usage, of w]
  obtain t res where op: "bind_io (main_read w a) (\<lambda>_. main_write w a) = (t, res)"
    by (cases "bind_io (main_read w a) (\<lambda>_. main_write w a)")
  have quiet: "\<forall>ev\<in>set t. \<not> is_device_call ev"
    using operation_events[of w a] op dry by auto
  then have silent: "\<forall>ev\<in>set t. \<not> is_feature_report ev"
    using feature_report_is_device_call by blast
  have c1: "\<exists>t. fst (main w a) = Enumerate vendor product # t"
    unfolding shape by (auto split: sum.splits prod.splits)
  have c2: "\<forall>ev\<in>set (fst (main w a)). \<not> is_feature_report ev"
    unfolding shape using op silent by (auto split: sum.splits prod.splits)
  have c3: "get_device_of vendor product (hid_enumerate w vendor product) = Inl e \<Longrightarrow>
         main w a = ([Enumerate vendor product], Inl e)"
    unfolding shape by simp
  have c4: "\<exists>t. fst (main w a) =
                 [Enumerate vendor product, Open_path Handle_r request_path,
                  Open_path Handle_d data_path] @ t
               \<and> (\<forall>ev\<in>set t. \<not> is_device_call ev \<or> ev = Close Handle_r \<or> ev = Close Handle_d)"
    if ok: "get_device_of vendor product (hid_enumerate w vendor product) = Inr (request_path, data_path)
         \<and> hid_open_path w Handle_r request_path = Inr ()
         \<and> hid_open_path w Handle_d data_path = Inr ()"
  proof (cases res)
    case (Inl x)
    with ok op have "fst (main w a) =
        [Enumerate vendor product, Open_path Handle_r request_path, Open_path Handle_d data_path] @ t"
      unfolding shape by simp
    with quiet show ?thesis by blast
  next
    case (Inr u)
    with ok op have "fst (main w a) =
        [Enumerate vendor product, Open_path Handle_r request_path, Open_path Handle_d data_path]
          @ (t @ [Close Handle_r, Close Handle_d])"
      unfolding shape by simp
    moreover have "\<forall>ev\<in>set (t @ [Close Handle_r, Close Handle_d]).
        \<not> is_device_call ev \<or> ev = Close Handle_r \<or> ev = Close Handle_d"
      using quiet by auto
    ultimately show ?thesis by blast
  qed
  have c5: "(\<exists>t. fst (main w a) =
                      [Enumerate vendor product, Open_path Handle_r request_path,
                       Open_path Handle_d data_path, Read_file input_file] @ t)
              \<and> (file_read w input_file = Inl e' \<longrightarrow>
                   main w a =
                     ([Enumerate vendor product, Open_path Handle_r request_path,
                       Open_path Handle_d data_path, Read_file input_file], Inl e'))"
    if ok: "get_device_of vendor product (hid_enumerate w vendor product) = Inr (request_path, data_path)
         \<and> hid_open_path w Handle_r request_path = Inr ()
         \<and> hid_open_path w Handle_d data_path = Inr ()"
      and wr: "args_write a = Some input_file \<and> input_file \<noteq> []"
  proof -
    from wr usage have nr: "\<not> truthy (args_read a)" by auto
    note dw = dry_write_operation[OF dry conjunct1[OF wr] conjunct2[OF wr] nr, of w]
    show ?thesis
      unfolding shape using ok dw by (cases "file_read w input_file") simp_all
  qed
  from c1 c2 c3 c4 c5 show ?thesis by blast
qed

theorem dry_run_still_uses_device_witness:
  "main (keyboard [] [] []) (read_args False)
     = ([Enumerate 0x05ac 0x024f],
        Inl (Exception ''No devices matching VID: 05ac PID: 024f found''))
   \<and> main (no_file [composite_dev, request_dev, consumer_dev, data_dev]) (write_args False)
     = ([Enumerate 0x05ac 0x024f,
         Open_path Handle_r ''hid#vid_05ac&pid_024f&mi_01&Col05'',
         Open_path Handle_d ''hid#vid_05ac&pid_024f&mi_01&Col06'',
         Read_file ''keymap.bin''], Inl (OSError ''No such file or directory''))"
proof -
  have dry: "\<not> args_force (read_args False)" "\<not> args_force (write_args False)"
    by (simp_all add: read_args_def write_args_def)
  have usage: "truthy (args_read (read_args False)) \<noteq> truthy (args_write (read_args False))"
    "truthy (args_read (write_args False)) \<noteq> truthy (args_write (write_args False))"
    by (simp_all add: read_args_def write_args_def)
  have none: "get_device_of vendor product (hid_enumerate (keyboard [] [] []) vendor product)
      = Inl (Exception ''No devices matching VID: 05ac PID: 024f found'')"
    by (simp add: keyboard_def get_device_of_def) code_simp
  have 1: "main (keyboard [] [] []) (read_args False)
     = ([Enumerate 0x05ac 0x024f],
        Inl (Exception ''No devices matching VID: 05ac PID: 024f found''))"
    using dry_run_still_uses_device[OF dry(1) usage(1), of "keyboard [] [] []"
        "Exception ''No devices matching VID: 05ac PID: 024f found''"] none
    by (simp add: vendor_def product_def)
  let ?w = "no_file [composite_dev, request_dev, consumer_dev, data_dev]"
  have res: "get_device_of vendor product (hid_enumerate ?w vendor product)
      = Inr (''hid#vid_05ac&pid_024f&mi_01&Col05'', ''hid#vid_05ac&pid_024f&mi_01&Col06'')"
    using example_resolution by (simp add: no_file_def keyboard_def)
  have 2: "main ?w (write_args False)
     = ([Enumerate 0x05ac 0x024f,
         Open_path Handle_r ''hid#vid_05ac&pid_024f&mi_01&Col05'',
         Open_path Handle_d ''hid#vid_05ac&pid_024f&mi_01&Col06'',
         Read_file ''keymap.bin''], Inl (OSError ''No such file or directory''))"
    using dry_run_still_uses_device[OF dry(2) usage(2), where w = ?w
        and request_path = "''hid#vid_05ac&pid_024f&mi_01&Col05''"
        and data_path = "''hid#vid_05ac&pid_024f&mi_01&Col06''"
        and input_file = "''keymap.bin''" and e' = "OSError ''No such file or directory''"] res
    by (simp add: no_file_def keyboard_def write_args_def vendor_def product_def)
  from 1 2 show ?thesis by (rule conjI)
qed

section \<open>Further properties of the program\<close>

subsection \<open>X1: an empty target counts as no target\<close>

text \<open>
  Extra X1. The tests of lines 24 to 28, 74 and 91 are truth tests, which an empty
  string fails. An invocation that gives the read option the empty string and the write
  option a path is therefore no usage error: it runs exactly as the invocation without
  the read option does, as a write.
\<close>

theorem empty_read_target_is_no_target:
  assumes "args_read a = Some []" and "truthy (args_write a)"
  shows "main w a = main w (a\<lparr>args_read := None\<rparr>)"
proof -
  have r: "main_read w a = return_io ()" "main_read w (a\<lparr>args_read := None\<rparr>) = return_io ()"
    using assms by (simp_all add: main_read_def)
  have f: "args_force (a\<lparr>args_read := None\<rparr>) = args_force a"
    "args_write (a\<lparr>args_read := None\<rparr>) = args_write a"
    by simp_all
  have wr: "main_write w (a\<lparr>args_read := None\<rparr>) = main_write w a"
    unfolding main_write_def f ..
  have t: "\<not> truthy (args_read a)" "\<not> truthy (args_read (a\<lparr>args_read := None\<rparr>))"
    "truthy (args_write (a\<lparr>args_read := None\<rparr>))"
    using assms by simp_all
  show ?thesis
    using assms(2) t by (simp add: main_def r wr)
qed

theorem empty_read_target_is_no_target_witness:
  "main (keyboard [request_dev, data_dev] [] [0xAA, 0xBB])
        \<lparr>args_read = Some [], args_write = Some ''keymap.bin'', args_force = False\<rparr>
     = main (keyboard [request_dev, data_dev] [] [0xAA, 0xBB])
        \<lparr>args_read = None, args_write = Some ''keymap.bin'', args_force = False\<rparr>"
proof -
  let ?a = "\<lparr>args_read = Some [], args_write = Some ''keymap.bin'', args_force = False\<rparr>"
  have r: "args_read ?a = Some []" and w: "truthy (args_write ?a)"
    by simp_all
  from empty_read_target_is_no_target[OF r w, of "keyboard [request_dev, data_dev] [] [0xAA, 0xBB]"]
  show ?thesis by simp
qed

subsection \<open>X2: a duplicate whose path does not decode\<close>

text \<open>
  Extra X2. The messages of lines 41 to 42 and 46 to 47 decode both paths before the
  exception is raised. When the loop meets a second request descriptor and one of the
  two paths is not valid UTF-8, what is raised is the \<open>UnicodeDecodeError\<close> of
  \<^verbatim>\<open>decode\<close>, not the exception that names the two paths.
\<close>

theorem duplicate_with_undecodable_path:
  assumes "vendor_usage d" and "contains ''&Col05'' (path d)" and "request_path \<noteq> []"
    and "\<not> utf8_valid request_path \<or> \<not> utf8_valid (path d)"
  shows "get_device_loop (d # ds) (request_path, data_path) = Inl UnicodeDecodeError"
  using assms by (auto simp: multiple_found_def decode_def)

theorem duplicate_with_undecodable_path_witness:
  "get_device_loop
     [\<lparr>path = ''hid&Col05'' @ [CHR 0xFF], interface_number = 2, usage = 1, usage_page = 0xff00\<rparr>]
     (''hid#vid_05ac&pid_024f&mi_01&Col05'', []) = Inl UnicodeDecodeError"
proof -
  let ?d = "\<lparr>path = ''hid&Col05'' @ [CHR 0xFF], interface_number = 2, usage = 1,
             usage_page = 0xff00\<rparr>"
  have f: "vendor_usage ?d"
    by (simp add: vendor_usage_def)
  have m: "contains ''&Col05'' (path ?d)"
    by simp
  have n: "''hid#vid_05ac&pid_024f&mi_01&Col05'' \<noteq> []"
    by simp
  have u: "\<not> utf8_valid ''hid#vid_05ac&pid_024f&mi_01&Col05'' \<or> \<not> utf8_valid (path ?d)"
    by (simp add: in_range_def)
  from duplicate_with_undecodable_path[OF f m n u, of "[]" "[]"]
  show ?thesis .
qed

end
